theory Spec2Isabelle
  imports Complex_Main "HOL-Library.Sublist"
begin

section \<open>Numbers and strings of the source language\<close>

text \<open>
  The strategy modules are TypeScript. A \<^verbatim>\<open>number\<close> is modelled as an exact real:
  the decimal literals of the source (\<^verbatim>\<open>0.85\<close>, \<^verbatim>\<open>-7.5\<close>) denote their decimal
  values and products are not rounded. \<^verbatim>\<open>Math.ceil\<close> is the ceiling, \<^verbatim>\<open>Math.max\<close> the
  maximum of the order.

  A string is the list of its UTF-16 code units, written in hexadecimal: \<open>0x500D\<close> is
  the character U+500D (``times'', the unit the leverage recommendations carry), \<open>0x0A\<close>
  the line feed.
\<close>

type_synonym jsstring = "nat list"

definition Math_ceil :: "real \<Rightarrow> real" where
  "Math_ceil x = of_int \<lceil>x\<rceil>"

text \<open>
  Interpolation \<^verbatim>\<open>${x}\<close> of a number into a template literal: the decimal digits of
  the integer part, a minus sign for a negative number, and the fraction digits after a
  point when the number is not an integer. This is what the source language prints for
  an integer below \<open>10^21\<close> and for a short decimal such as \<^verbatim>\<open>-7.5\<close>.
\<close>

fun natDigits :: "nat \<Rightarrow> jsstring" where
  "natDigits n = (if n < 10 then [0x30 + n] else natDigits (n div 10) @ [0x30 + n mod 10])"

declare natDigits.simps [simp del]

fun fracDigits :: "nat \<Rightarrow> real \<Rightarrow> jsstring" where
  "fracDigits 0 r = []"
| "fracDigits (Suc k) r =
     (if r = 0 then []
      else (0x30 + nat \<lfloor>r * 10\<rfloor>) # fracDigits k (r * 10 - of_int \<lfloor>r * 10\<rfloor>))"

definition numberToString :: "real \<Rightarrow> jsstring" where
  "numberToString x =
     (if x < 0 then [0x2D] else []) @ natDigits (nat \<lfloor>\<bar>x\<bar>\<rfloor>) @
     (if \<bar>x\<bar> = of_int \<lfloor>\<bar>x\<bar>\<rfloor> then []
      else 0x2E # fracDigits 17 (\<bar>x\<bar> - of_int \<lfloor>\<bar>x\<bar>\<rfloor>))"

section \<open>The parameter record\<close>

text \<open>
  \<^verbatim>\<open>StrategyParams\<close> as the five derivation functions build it. The three signal
  tiers carry strings (a leverage such as ``13'' followed by U+500D, a position range
  such as \<^verbatim>\<open>18-20%\<close>); every threshold is a number.
\<close>

record SignalTiers =
  normal :: jsstring
  good :: jsstring
  strong :: jsstring

record StopLoss =
  low :: real
  mid :: real
  high :: real

record ProfitStage =
  trigger :: real
  closePercent :: real

record PartialTakeProfit =
  stage1 :: ProfitStage
  stage2 :: ProfitStage
  stage3 :: ProfitStage

record TrailingLevel =
  trigger :: real
  stopAt :: real

record TrailingStop =
  level1 :: TrailingLevel
  level2 :: TrailingLevel
  level3 :: TrailingLevel

record VolatilityFactors =
  leverageFactor :: real
  positionFactor :: real

record VolatilityAdjustment =
  highVolatility :: VolatilityFactors
  normalVolatility :: VolatilityFactors
  lowVolatility :: VolatilityFactors

record StrategyParams =
  name :: jsstring
  description :: jsstring
  leverageMin :: real
  leverageMax :: real
  leverageRecommend :: SignalTiers
  positionSizeMin :: real
  positionSizeMax :: real
  positionSizeRecommend :: SignalTiers
  stopLoss :: StopLoss
  trailingStop :: TrailingStop
  partialTakeProfit :: PartialTakeProfit
  peakDrawdownProtection :: real
  volatilityAdjustment :: VolatilityAdjustment
  entryCondition :: jsstring
  riskTolerance :: jsstring
  tradingStyle :: jsstring
  enableCodeLevelProtection :: bool

section \<open>The five derivation functions\<close>

text \<open>\<^verbatim>\<open>getUltraShortStrategy\<close> (ultraShort.ts): 50\%--75\% of the system maximum.\<close>

definition getUltraShortStrategy :: "real \<Rightarrow> StrategyParams" where
  "getUltraShortStrategy maxLeverage =
    (let ultraShortLevMin = max 3 (Math_ceil (maxLeverage * 0.5));
         ultraShortLevMax = max 5 (Math_ceil (maxLeverage * 0.75))
     in \<lparr>
      name = [0x8D85, 0x77ED, 0x7EBF] \<comment> \<open>ultra-short\<close>,
      description = [0x6781, 0x77ED, 0x5468, 0x671F, 0x5FEB, 0x8FDB, 0x5FEB, 0x51FA, 0xFF0C, 0x35,
         0x5206, 0x949F, 0x6267, 0x884C, 0xFF0C, 0x9002, 0x5408, 0x9AD8, 0x9891, 0x4EA4,
         0x6613] \<comment> \<open>very short cycles, quick in and out, 5-minute execution, for high-frequency trading\<close>,
      leverageMin = ultraShortLevMin,
      leverageMax = ultraShortLevMax,
      leverageRecommend = \<lparr>
        normal = numberToString ultraShortLevMin @ [0x500D],
        good = numberToString (max 4 (Math_ceil (maxLeverage * 0.625))) @ [0x500D],
        strong = numberToString ultraShortLevMax @ [0x500D]\<rparr>,
      positionSizeMin = 18,
      positionSizeMax = 25,
      positionSizeRecommend = \<lparr>normal = [0x31, 0x38, 0x2D, 0x32, 0x30, 0x25] \<comment> \<open>18-20%\<close>, good = [0x32, 0x30, 0x2D, 0x32, 0x33, 0x25] \<comment> \<open>20-23%\<close>, strong = [0x32, 0x33, 0x2D, 0x32, 0x35, 0x25] \<comment> \<open>23-25%\<close>\<rparr>,
      stopLoss = \<lparr>low = -2.5, mid = -2, high = -1.5\<rparr>,
      trailingStop = \<lparr>
        level1 = \<lparr>TrailingLevel.trigger = 4, stopAt = 1.5\<rparr>,
        level2 = \<lparr>TrailingLevel.trigger = 8, stopAt = 4\<rparr>,
        level3 = \<lparr>TrailingLevel.trigger = 15, stopAt = 8\<rparr>\<rparr>,
      partialTakeProfit = \<lparr>
        stage1 = \<lparr>ProfitStage.trigger = 15, closePercent = 50\<rparr>,
        stage2 = \<lparr>ProfitStage.trigger = 25, closePercent = 50\<rparr>,
        stage3 = \<lparr>ProfitStage.trigger = 35, closePercent = 100\<rparr>\<rparr>,
      peakDrawdownProtection = 20,
      volatilityAdjustment = \<lparr>
        highVolatility = \<lparr>leverageFactor = 0.7, positionFactor = 0.8\<rparr>,
        normalVolatility = \<lparr>leverageFactor = 1.0, positionFactor = 1.0\<rparr>,
        lowVolatility = \<lparr>leverageFactor = 1.1, positionFactor = 1.0\<rparr>\<rparr>,
      entryCondition = [0x81F3, 0x5C11, 0x32, 0x4E2A, 0x65F6, 0x95F4, 0x6846, 0x67B6, 0x4FE1, 0x53F7,
         0x4E00, 0x81F4, 0xFF0C, 0x4F18, 0x5148, 0x31, 0x2D, 0x35, 0x5206, 0x949F,
         0x7EA7, 0x522B] \<comment> \<open>at least 2 time frames agree, 1-5 minute frames preferred\<close>,
      riskTolerance = [0x5355, 0x7B14, 0x4EA4, 0x6613, 0x98CE, 0x9669, 0x63A7, 0x5236, 0x5728, 0x31,
         0x38, 0x2D, 0x32, 0x35, 0x25, 0x4E4B, 0x95F4, 0xFF0C, 0x5FEB, 0x8FDB,
         0x5FEB, 0x51FA] \<comment> \<open>risk per trade kept within 18-25%, quick in and out\<close>,
      tradingStyle = [0x8D85, 0x77ED, 0x7EBF, 0x4EA4, 0x6613, 0xFF0C, 0x35, 0x5206, 0x949F, 0x6267,
         0x884C, 0x5468, 0x671F, 0xFF0C, 0x5FEB, 0x901F, 0x6355, 0x6349, 0x77ED, 0x671F,
         0x6CE2, 0x52A8, 0xFF0C, 0x4E25, 0x683C, 0x6267, 0x884C, 0x32, 0x25, 0x5468,
         0x671F, 0x9501, 0x5229, 0x89C4, 0x5219, 0x548C, 0x33, 0x30, 0x5206, 0x949F,
         0x76C8, 0x5229, 0x5E73, 0x4ED3, 0x89C4, 0x5219] \<comment> \<open>ultra-short trading, 5-minute cycle, catch short-term swings fast, strictly apply the 2% cycle profit-lock rule and the 30-minute close-in-profit rule\<close>,
      enableCodeLevelProtection = False\<rparr>)"

text \<open>\<^verbatim>\<open>getConservativeStrategy\<close> (conservative.ts): 30\%--60\% of the system maximum.\<close>

definition getConservativeStrategy :: "real \<Rightarrow> StrategyParams" where
  "getConservativeStrategy maxLeverage =
    (let conservativeLevMin = max 1 (Math_ceil (maxLeverage * 0.3));
         conservativeLevMax = max 2 (Math_ceil (maxLeverage * 0.6));
         conservativeLevNormal = conservativeLevMin;
         conservativeLevGood = Math_ceil ((conservativeLevMin + conservativeLevMax) / 2);
         conservativeLevStrong = conservativeLevMax
     in \<lparr>
      name = [0x7A33, 0x5065] \<comment> \<open>conservative\<close>,
      description = [0x4F4E, 0x98CE, 0x9669, 0x4F4E, 0x6760, 0x6746, 0xFF0C, 0x4E25, 0x683C, 0x5165,
         0x573A, 0x6761, 0x4EF6, 0xFF0C, 0x9002, 0x5408, 0x4FDD, 0x5B88, 0x6295, 0x8D44,
         0x8005] \<comment> \<open>low risk, low leverage, strict entry conditions, for conservative investors\<close>,
      leverageMin = conservativeLevMin,
      leverageMax = conservativeLevMax,
      leverageRecommend = \<lparr>
        normal = numberToString conservativeLevNormal @ [0x500D],
        good = numberToString conservativeLevGood @ [0x500D],
        strong = numberToString conservativeLevStrong @ [0x500D]\<rparr>,
      positionSizeMin = 15,
      positionSizeMax = 22,
      positionSizeRecommend = \<lparr>normal = [0x31, 0x35, 0x2D, 0x31, 0x37, 0x25] \<comment> \<open>15-17%\<close>, good = [0x31, 0x37, 0x2D, 0x32, 0x30, 0x25] \<comment> \<open>17-20%\<close>, strong = [0x32, 0x30, 0x2D, 0x32, 0x32, 0x25] \<comment> \<open>20-22%\<close>\<rparr>,
      stopLoss = \<lparr>low = -3.5, mid = -3, high = -2.5\<rparr>,
      trailingStop = \<lparr>
        level1 = \<lparr>TrailingLevel.trigger = 6, stopAt = 2\<rparr>,
        level2 = \<lparr>TrailingLevel.trigger = 12, stopAt = 6\<rparr>,
        level3 = \<lparr>TrailingLevel.trigger = 20, stopAt = 12\<rparr>\<rparr>,
      partialTakeProfit = \<lparr>
        stage1 = \<lparr>ProfitStage.trigger = 20, closePercent = 50\<rparr>,
        stage2 = \<lparr>ProfitStage.trigger = 30, closePercent = 50\<rparr>,
        stage3 = \<lparr>ProfitStage.trigger = 40, closePercent = 100\<rparr>\<rparr>,
      peakDrawdownProtection = 25,
      volatilityAdjustment = \<lparr>
        highVolatility = \<lparr>leverageFactor = 0.6, positionFactor = 0.7\<rparr>,
        normalVolatility = \<lparr>leverageFactor = 1.0, positionFactor = 1.0\<rparr>,
        lowVolatility = \<lparr>leverageFactor = 1.0, positionFactor = 1.0\<rparr>\<rparr>,
      entryCondition = [0x81F3, 0x5C11, 0x33, 0x4E2A, 0x5173, 0x952E, 0x65F6, 0x95F4, 0x6846, 0x67B6,
         0x4FE1, 0x53F7, 0x4E00, 0x81F4, 0xFF0C, 0x34, 0x4E2A, 0x6216, 0x66F4, 0x591A,
         0x66F4, 0x4F73] \<comment> \<open>at least 3 key time frames agree, 4 or more is better\<close>,
      riskTolerance = [0x5355, 0x7B14, 0x4EA4, 0x6613, 0x98CE, 0x9669, 0x63A7, 0x5236, 0x5728, 0x31,
         0x35, 0x2D, 0x32, 0x32, 0x25, 0x4E4B, 0x95F4, 0xFF0C, 0x4E25, 0x683C,
         0x63A7, 0x5236, 0x56DE, 0x64A4] \<comment> \<open>risk per trade kept within 15-22%, drawdown strictly controlled\<close>,
      tradingStyle = [0x8C28, 0x614E, 0x4EA4, 0x6613, 0xFF0C, 0x5B81, 0x53EF, 0x9519, 0x8FC7, 0x673A,
         0x4F1A, 0x4E5F, 0x4E0D, 0x5192, 0x9669, 0xFF0C, 0x4F18, 0x5148, 0x4FDD, 0x62A4,
         0x672C, 0x91D1] \<comment> \<open>trade cautiously, rather miss a chance than take a risk, protect the principal first\<close>,
      enableCodeLevelProtection = False\<rparr>)"

text \<open>\<^verbatim>\<open>getBalancedStrategy\<close> (conservative.ts): 60\%--85\% of the system maximum.\<close>

definition getBalancedStrategy :: "real \<Rightarrow> StrategyParams" where
  "getBalancedStrategy maxLeverage =
    (let balancedLevMin = max 2 (Math_ceil (maxLeverage * 0.6));
         balancedLevMax = max 3 (Math_ceil (maxLeverage * 0.85));
         balancedLevNormal = balancedLevMin;
         balancedLevGood = Math_ceil ((balancedLevMin + balancedLevMax) / 2);
         balancedLevStrong = balancedLevMax
     in \<lparr>
      name = [0x5E73, 0x8861] \<comment> \<open>balanced\<close>,
      description = [0x4E2D, 0x7B49, 0x98CE, 0x9669, 0x6760, 0x6746, 0xFF0C, 0x5408, 0x7406, 0x5165,
         0x573A, 0x6761, 0x4EF6, 0xFF0C, 0x9002, 0x5408, 0x5927, 0x591A, 0x6570, 0x6295,
         0x8D44, 0x8005] \<comment> \<open>medium risk and leverage, reasonable entry conditions, for most investors\<close>,
      leverageMin = balancedLevMin,
      leverageMax = balancedLevMax,
      leverageRecommend = \<lparr>
        normal = numberToString balancedLevNormal @ [0x500D],
        good = numberToString balancedLevGood @ [0x500D],
        strong = numberToString balancedLevStrong @ [0x500D]\<rparr>,
      positionSizeMin = 20,
      positionSizeMax = 27,
      positionSizeRecommend = \<lparr>normal = [0x32, 0x30, 0x2D, 0x32, 0x33, 0x25] \<comment> \<open>20-23%\<close>, good = [0x32, 0x33, 0x2D, 0x32, 0x35, 0x25] \<comment> \<open>23-25%\<close>, strong = [0x32, 0x35, 0x2D, 0x32, 0x37, 0x25] \<comment> \<open>25-27%\<close>\<rparr>,
      stopLoss = \<lparr>low = -3, mid = -2.5, high = -2\<rparr>,
      trailingStop = \<lparr>
        level1 = \<lparr>TrailingLevel.trigger = 8, stopAt = 3\<rparr>,
        level2 = \<lparr>TrailingLevel.trigger = 15, stopAt = 8\<rparr>,
        level3 = \<lparr>TrailingLevel.trigger = 25, stopAt = 15\<rparr>\<rparr>,
      partialTakeProfit = \<lparr>
        stage1 = \<lparr>ProfitStage.trigger = 30, closePercent = 50\<rparr>,
        stage2 = \<lparr>ProfitStage.trigger = 40, closePercent = 50\<rparr>,
        stage3 = \<lparr>ProfitStage.trigger = 50, closePercent = 100\<rparr>\<rparr>,
      peakDrawdownProtection = 30,
      volatilityAdjustment = \<lparr>
        highVolatility = \<lparr>leverageFactor = 0.7, positionFactor = 0.8\<rparr>,
        normalVolatility = \<lparr>leverageFactor = 1.0, positionFactor = 1.0\<rparr>,
        lowVolatility = \<lparr>leverageFactor = 1.1, positionFactor = 1.0\<rparr>\<rparr>,
      entryCondition = [0x81F3, 0x5C11, 0x32, 0x4E2A, 0x5173, 0x952E, 0x65F6, 0x95F4, 0x6846, 0x67B6,
         0x4FE1, 0x53F7, 0x4E00, 0x81F4, 0xFF0C, 0x33, 0x4E2A, 0x6216, 0x66F4, 0x591A,
         0x66F4, 0x4F73] \<comment> \<open>at least 2 key time frames agree, 3 or more is better\<close>,
      riskTolerance = [0x5355, 0x7B14, 0x4EA4, 0x6613, 0x98CE, 0x9669, 0x63A7, 0x5236, 0x5728, 0x32,
         0x30, 0x2D, 0x32, 0x37, 0x25, 0x4E4B, 0x95F4, 0xFF0C, 0x5E73, 0x8861,
         0x98CE, 0x9669, 0x4E0E, 0x6536, 0x76CA] \<comment> \<open>risk per trade kept within 20-27%, balancing risk and return\<close>,
      tradingStyle = [0x5728, 0x98CE, 0x9669, 0x53EF, 0x63A7, 0x524D, 0x63D0, 0x4E0B, 0x79EF, 0x6781,
         0x628A, 0x63E1, 0x673A, 0x4F1A, 0xFF0C, 0x8FFD, 0x6C42, 0x7A33, 0x5065, 0x589E,
         0x957F] \<comment> \<open>seize chances while risk stays controlled, aim at steady growth\<close>,
      enableCodeLevelProtection = False\<rparr>)"

text \<open>
  \<^verbatim>\<open>getAggressiveStrategy\<close> (aggressive.ts): 85\%--100\% of the system maximum. The
  upper bound is the argument itself: no ceiling and no floor is applied to it.
\<close>

definition getAggressiveStrategy :: "real \<Rightarrow> StrategyParams" where
  "getAggressiveStrategy maxLeverage =
    (let aggressiveLevMin = max 3 (Math_ceil (maxLeverage * 0.85));
         aggressiveLevMax = maxLeverage;
         aggressiveLevNormal = aggressiveLevMin;
         aggressiveLevGood = Math_ceil ((aggressiveLevMin + aggressiveLevMax) / 2);
         aggressiveLevStrong = aggressiveLevMax
     in \<lparr>
      name = [0x6FC0, 0x8FDB] \<comment> \<open>aggressive\<close>,
      description = [0x9AD8, 0x98CE, 0x9669, 0x9AD8, 0x6760, 0x6746, 0xFF0C, 0x5BBD, 0x677E, 0x5165,
         0x573A, 0x6761, 0x4EF6, 0xFF0C, 0x9002, 0x5408, 0x6FC0, 0x8FDB, 0x6295, 0x8D44,
         0x8005] \<comment> \<open>high risk, high leverage, loose entry conditions, for aggressive investors\<close>,
      leverageMin = aggressiveLevMin,
      leverageMax = aggressiveLevMax,
      leverageRecommend = \<lparr>
        normal = numberToString aggressiveLevNormal @ [0x500D],
        good = numberToString aggressiveLevGood @ [0x500D],
        strong = numberToString aggressiveLevStrong @ [0x500D]\<rparr>,
      positionSizeMin = 25,
      positionSizeMax = 32,
      positionSizeRecommend = \<lparr>normal = [0x32, 0x35, 0x2D, 0x32, 0x38, 0x25] \<comment> \<open>25-28%\<close>, good = [0x32, 0x38, 0x2D, 0x33, 0x30, 0x25] \<comment> \<open>28-30%\<close>, strong = [0x33, 0x30, 0x2D, 0x33, 0x32, 0x25] \<comment> \<open>30-32%\<close>\<rparr>,
      stopLoss = \<lparr>low = -6, mid = -8, high = -10\<rparr>,
      trailingStop = \<lparr>
        level1 = \<lparr>TrailingLevel.trigger = 10, stopAt = 4\<rparr>,
        level2 = \<lparr>TrailingLevel.trigger = 18, stopAt = 10\<rparr>,
        level3 = \<lparr>TrailingLevel.trigger = 30, stopAt = 18\<rparr>\<rparr>,
      partialTakeProfit = \<lparr>
        stage1 = \<lparr>ProfitStage.trigger = 25, closePercent = 40\<rparr>,
        stage2 = \<lparr>ProfitStage.trigger = 40, closePercent = 60\<rparr>,
        stage3 = \<lparr>ProfitStage.trigger = 60, closePercent = 100\<rparr>\<rparr>,
      peakDrawdownProtection = 25,
      volatilityAdjustment = \<lparr>
        highVolatility = \<lparr>leverageFactor = 0.8, positionFactor = 0.85\<rparr>,
        normalVolatility = \<lparr>leverageFactor = 1.0, positionFactor = 1.0\<rparr>,
        lowVolatility = \<lparr>leverageFactor = 1.2, positionFactor = 1.1\<rparr>\<rparr>,
      entryCondition = [0x81F3, 0x5C11, 0x32, 0x4E2A, 0x5173, 0x952E, 0x65F6, 0x95F4, 0x6846, 0x67B6,
         0x4FE1, 0x53F7, 0x4E00, 0x81F4, 0x5373, 0x53EF, 0x5165, 0x573A] \<comment> \<open>entry as soon as at least 2 key time frames agree\<close>,
      riskTolerance = [0x5355, 0x7B14, 0x4EA4, 0x6613, 0x98CE, 0x9669, 0x53EF, 0x8FBE, 0x32, 0x35,
         0x2D, 0x33, 0x32, 0x25, 0xFF0C, 0x8FFD, 0x6C42, 0x9AD8, 0x6536, 0x76CA] \<comment> \<open>risk per trade up to 25-32%, aiming at high return\<close>,
      tradingStyle = [0x79EF, 0x6781, 0x8FDB, 0x53D6, 0xFF0C, 0x5FEB, 0x901F, 0x6355, 0x6349, 0x5E02,
         0x573A, 0x673A, 0x4F1A, 0xFF0C, 0x8FFD, 0x6C42, 0x6700, 0x5927, 0x5316, 0x6536,
         0x76CA] \<comment> \<open>go forward actively, catch market chances fast, maximise return\<close>,
      enableCodeLevelProtection = True\<rparr>)"

text \<open>\<^verbatim>\<open>getSwingTrendStrategy\<close> (aggressive.ts): 20\%--50\% of the system maximum.\<close>

definition getSwingTrendStrategy :: "real \<Rightarrow> StrategyParams" where
  "getSwingTrendStrategy maxLeverage = \<lparr>
      name = [0x6CE2, 0x6BB5, 0x8D8B, 0x52BF] \<comment> \<open>swing trend\<close>,
      description = [0x4E2D, 0x957F, 0x7EBF, 0x6CE2, 0x6BB5, 0x4EA4, 0x6613, 0xFF0C, 0x32, 0x30,
         0x5206, 0x949F, 0x6267, 0x884C, 0xFF0C, 0x6355, 0x6349, 0x4E2D, 0x671F, 0x8D8B,
         0x52BF, 0xFF0C, 0x9002, 0x5408, 0x7A33, 0x5065, 0x6210, 0x957F] \<comment> \<open>medium- to long-term swing trading, 20-minute execution, catch mid-term trends, for steady growth\<close>,
      leverageMin = max 2 (Math_ceil (maxLeverage * 0.2)),
      leverageMax = max 5 (Math_ceil (maxLeverage * 0.5)),
      leverageRecommend = \<lparr>
        normal = numberToString (max 2 (Math_ceil (maxLeverage * 0.2))) @ [0x500D],
        good = numberToString (max 3 (Math_ceil (maxLeverage * 0.35))) @ [0x500D],
        strong = numberToString (max 5 (Math_ceil (maxLeverage * 0.5))) @ [0x500D]\<rparr>,
      positionSizeMin = 20,
      positionSizeMax = 35,
      positionSizeRecommend = \<lparr>normal = [0x32, 0x30, 0x2D, 0x32, 0x35, 0x25] \<comment> \<open>20-25%\<close>, good = [0x32, 0x35, 0x2D, 0x33, 0x30, 0x25] \<comment> \<open>25-30%\<close>, strong = [0x33, 0x30, 0x2D, 0x33, 0x35, 0x25] \<comment> \<open>30-35%\<close>\<rparr>,
      stopLoss = \<lparr>low = -9, mid = -7.5, high = -5.5\<rparr>,
      trailingStop = \<lparr>
        level1 = \<lparr>TrailingLevel.trigger = 15, stopAt = 8\<rparr>,
        level2 = \<lparr>TrailingLevel.trigger = 30, stopAt = 20\<rparr>,
        level3 = \<lparr>TrailingLevel.trigger = 50, stopAt = 35\<rparr>\<rparr>,
      partialTakeProfit = \<lparr>
        stage1 = \<lparr>ProfitStage.trigger = 50, closePercent = 40\<rparr>,
        stage2 = \<lparr>ProfitStage.trigger = 80, closePercent = 60\<rparr>,
        stage3 = \<lparr>ProfitStage.trigger = 120, closePercent = 100\<rparr>\<rparr>,
      peakDrawdownProtection = 35,
      volatilityAdjustment = \<lparr>
        highVolatility = \<lparr>leverageFactor = 0.5, positionFactor = 0.6\<rparr>,
        normalVolatility = \<lparr>leverageFactor = 1.0, positionFactor = 1.0\<rparr>,
        lowVolatility = \<lparr>leverageFactor = 1.2, positionFactor = 1.1\<rparr>\<rparr>,
      entryCondition = [0x5FC5, 0x987B, 0x31, 0x5206, 0x949F, 0x3001, 0x33, 0x5206, 0x949F, 0x3001,
         0x35, 0x5206, 0x949F, 0x3001, 0x31, 0x35, 0x5206, 0x949F, 0x8FD9, 0x34,
         0x4E2A, 0x65F6, 0x95F4, 0x6846, 0x67B6, 0x4FE1, 0x53F7, 0x5168, 0x90E8, 0x5F3A,
         0x70C8, 0x4E00, 0x81F4, 0xFF0C, 0x4E14, 0x5173, 0x952E, 0x6307, 0x6807, 0x5171,
         0x632F, 0xFF08, 0x4D, 0x41, 0x43, 0x44, 0x3001, 0x52, 0x53, 0x49,
         0x3001, 0x45, 0x4D, 0x41, 0x65B9, 0x5411, 0x4E00, 0x81F4, 0xFF09] \<comment> \<open>the 1, 3, 5 and 15 minute frames must all agree strongly, and the key indicators resonate (MACD, RSI, EMA point the same way)\<close>,
      riskTolerance = [0x5355, 0x7B14, 0x4EA4, 0x6613, 0x98CE, 0x9669, 0x63A7, 0x5236, 0x5728, 0x32,
         0x30, 0x2D, 0x33, 0x35, 0x25, 0x4E4B, 0x95F4, 0xFF0C, 0x6CE8, 0x91CD,
         0x8D8B, 0x52BF, 0x8D28, 0x91CF, 0x800C, 0x975E, 0x4EA4, 0x6613, 0x9891, 0x7387] \<comment> \<open>risk per trade kept within 20-35%, trend quality over trading frequency\<close>,
      tradingStyle = [0x6CE2, 0x6BB5, 0x8D8B, 0x52BF, 0x4EA4, 0x6613, 0xFF0C, 0x32, 0x30, 0x5206,
         0x949F, 0x6267, 0x884C, 0x5468, 0x671F, 0xFF0C, 0x8010, 0x5FC3, 0x7B49, 0x5F85,
         0x9AD8, 0x8D28, 0x91CF, 0x8D8B, 0x52BF, 0x4FE1, 0x53F7, 0xFF0C, 0x6301, 0x4ED3,
         0x65F6, 0x95F4, 0x53EF, 0x8FBE, 0x6570, 0x5929, 0xFF0C, 0x8BA9, 0x5229, 0x6DA6,
         0x5145, 0x5206, 0x5954, 0x8DD1] \<comment> \<open>swing-trend trading, 20-minute cycle, wait patiently for high-quality trend signals, hold for up to several days, let profits run\<close>,
      enableCodeLevelProtection = True\<rparr>"

section \<open>The instruction renderers\<close>

text \<open>
  Each renderer returns one template literal. The literal is written line by line: the
  text is the concatenation of its lines, each ending with its line feed (the first line
  of every literal is empty). The run-time context is a type the strategy modules only
  import; no renderer reads a field of it, so it is a type parameter here.

  \<^verbatim>\<open>generateUltraShortPrompt\<close> (ultraShort.ts): target return, the rules for trending
  and for range-bound markets, and the two ultra-short rules (lock the profit of a cycle
  between 2\% and 4\%, close after 30 minutes in profit).
\<close>

definition generateUltraShortPrompt :: "StrategyParams \<Rightarrow> 'ctx \<Rightarrow> jsstring" where
  "generateUltraShortPrompt params context = concat [
     [0x0A],
     \<comment> \<open>**target monthly return**: from 20-30%\<close>
     [0x2A, 0x2A, 0x76EE, 0x6807, 0x6708, 0x56DE, 0x62A5, 0x2A, 0x2A, 0xFF1A,
      0x32, 0x30, 0x2D, 0x33, 0x30, 0x25, 0x8D77, 0x6B65, 0x0A],
     \<comment> \<open>**profit/loss ratio sought**: >= 2:1 (let profits run, stop losing trades fast)\<close>
     [0x2A, 0x2A, 0x76C8, 0x4E8F, 0x6BD4, 0x8FFD, 0x6C42, 0x2A, 0x2A, 0xFF1A,
      0x2265, 0x32, 0x3A, 0x31, 0xFF08, 0x8BA9, 0x76C8, 0x5229, 0x5145, 0x5206,
      0x5954, 0x8DD1, 0xFF0C, 0x5FEB, 0x901F, 0x6B62, 0x635F, 0x52A3, 0x52BF, 0x4EA4,
      0x6613, 0xFF09, 0x0A],
     [0x0A],
     \<comment> \<open>[market recognition and response - ultra-short strategy]\<close>
     [0x3010, 0x884C, 0x60C5, 0x8BC6, 0x522B, 0x4E0E, 0x5E94, 0x5BF9, 0x20, 0x2D,
      0x20, 0x8D85, 0x77ED, 0x7EBF, 0x7B56, 0x7565, 0x3011, 0x0A],
     [0x0A],
     \<comment> \<open>the ultra-short strategy is about catching short-term swings fast\<close>
     [0x8D85, 0x77ED, 0x7EBF, 0x7B56, 0x7565, 0x6CE8, 0x91CD, 0x5FEB, 0x901F, 0x6355,
      0x6349, 0x77ED, 0x671F, 0x6CE2, 0x52A8, 0x0A],
     [0x0A],
     \<comment> \<open>trending market:\<close>
     [0x5355, 0x8FB9, 0x884C, 0x60C5, 0x5904, 0x7406, 0xFF1A, 0x0A],
     \<comment> \<open>- entry: at least 1 long frame (30m or 1h) + 2 medium frames (5m, 15m) point the same way\<close>
     [0x2D, 0x20, 0x5165, 0x573A, 0x6761, 0x4EF6, 0xFF1A, 0x81F3, 0x5C11, 0x31,
      0x4E2A, 0x957F, 0x5468, 0x671F, 0xFF08, 0x33, 0x30, 0x6D, 0x6216, 0x31,
      0x68, 0xFF09, 0x2B, 0x20, 0x32, 0x4E2A, 0x4E2D, 0x5468, 0x671F, 0xFF08,
      0x35, 0x6D, 0x3001, 0x31, 0x35, 0x6D, 0xFF09, 0x65B9, 0x5411, 0x4E00,
      0x81F4, 0x0A],
     \<comment> \<open>- position: standard size\<close>
     [0x2D, 0x20, 0x4ED3, 0x4F4D, 0x914D, 0x7F6E, 0xFF1A, 0x6807, 0x51C6, 0x4ED3,
      0x4F4D, 0x0A],
     \<comment> \<open>- leverage: chosen by signal strength\<close>
     [0x2D, 0x20, 0x6760, 0x6746, 0x9009, 0x62E9, 0xFF1A, 0x6839, 0x636E, 0x4FE1,
      0x53F7, 0x5F3A, 0x5EA6, 0x9009, 0x62E9, 0x0A],
     [0x0A],
     \<comment> \<open>range-bound market:\<close>
     [0x9707, 0x8361, 0x884C, 0x60C5, 0x5904, 0x7406, 0xFF1A, 0x0A],
     \<comment> \<open>- watch cautiously\<close>
     [0x2D, 0x20, 0x8C28, 0x614E, 0x89C2, 0x671B, 0x0A],
     \<comment> \<open>- reduce the position to the minimum\<close>
     [0x2D, 0x20, 0x964D, 0x4F4E, 0x4ED3, 0x4F4D, 0x81F3, 0x6700, 0x5C0F, 0x0A],
     \<comment> \<open>- use the lowest leverage\<close>
     [0x2D, 0x20, 0x4F7F, 0x7528, 0x6700, 0x4F4E, 0x6760, 0x6746, 0x0A],
     [0x0A],
     \<comment> \<open>[special rules of the ultra-short strategy]\<close>
     [0x3010, 0x8D85, 0x77ED, 0x7EBF, 0x7279, 0x522B, 0x89C4, 0x5219, 0x3011, 0x0A],
     \<comment> \<open>- cycle profit lock: within a cycle, at a profit > 2% and < 4%, close at once and lock the profit\<close>
     [0x2D, 0x20, 0x5468, 0x671F, 0x9501, 0x5229, 0x89C4, 0x5219, 0xFF1A, 0x6BCF,
      0x4E2A, 0x5468, 0x671F, 0x5185, 0xFF0C, 0x76C8, 0x5229, 0x3E, 0x32, 0x25,
      0x4E14, 0x3C, 0x34, 0x25, 0x65F6, 0xFF0C, 0x7ACB, 0x5373, 0x5E73, 0x4ED3,
      0x9501, 0x5B9A, 0x5229, 0x6DA6, 0x0A],
     \<comment> \<open>- 30-minute rule: held over 30 minutes with profit > fees and the trailing-stop line not reached, close conservatively\<close>
     [0x2D, 0x20, 0x33, 0x30, 0x5206, 0x949F, 0x89C4, 0x5219, 0xFF1A, 0x6301,
      0x4ED3, 0x8D85, 0x8FC7, 0x33, 0x30, 0x5206, 0x949F, 0x4E14, 0x76C8, 0x5229,
      0x3E, 0x624B, 0x7EED, 0x8D39, 0x6210, 0x672C, 0x65F6, 0xFF0C, 0x5982, 0x672A,
      0x8FBE, 0x79FB, 0x52A8, 0x6B62, 0x76C8, 0x7EBF, 0xFF0C, 0x6267, 0x884C, 0x4FDD,
      0x5B88, 0x5E73, 0x4ED3, 0x0A],
     \<comment> \<open>- catch short-term swings fast, apply the profit-lock rule strictly\<close>
     [0x2D, 0x20, 0x5FEB, 0x901F, 0x6355, 0x6349, 0x77ED, 0x671F, 0x6CE2, 0x52A8,
      0xFF0C, 0x4E25, 0x683C, 0x6267, 0x884C, 0x9501, 0x5229, 0x89C4, 0x5219, 0x0A]]"

text \<open>
  \<^verbatim>\<open>generateConservativePrompt\<close> (conservative.ts): target return 10--20\%, entry
  rules for the two market regimes, and the summary of the conservative strategy.
\<close>

definition generateConservativePrompt :: "StrategyParams \<Rightarrow> 'ctx \<Rightarrow> jsstring" where
  "generateConservativePrompt params context = concat [
     [0x0A],
     \<comment> \<open>**target monthly return**: from 10-20%\<close>
     [0x2A, 0x2A, 0x76EE, 0x6807, 0x6708, 0x56DE, 0x62A5, 0x2A, 0x2A, 0xFF1A,
      0x31, 0x30, 0x2D, 0x32, 0x30, 0x25, 0x8D77, 0x6B65, 0x0A],
     \<comment> \<open>**profit/loss ratio sought**: >= 2:1 (let profits run, stop losing trades fast)\<close>
     [0x2A, 0x2A, 0x76C8, 0x4E8F, 0x6BD4, 0x8FFD, 0x6C42, 0x2A, 0x2A, 0xFF1A,
      0x2265, 0x32, 0x3A, 0x31, 0xFF08, 0x8BA9, 0x76C8, 0x5229, 0x5145, 0x5206,
      0x5954, 0x8DD1, 0xFF0C, 0x5FEB, 0x901F, 0x6B62, 0x635F, 0x52A3, 0x52BF, 0x4EA4,
      0x6613, 0xFF09, 0x0A],
     [0x0A],
     \<comment> \<open>[market recognition and response - conservative strategy]\<close>
     [0x3010, 0x884C, 0x60C5, 0x8BC6, 0x522B, 0x4E0E, 0x5E94, 0x5BF9, 0x20, 0x2D,
      0x20, 0x7A33, 0x5065, 0x7B56, 0x7565, 0x3011, 0x0A],
     [0x0A],
     \<comment> \<open>the conservative strategy is more cautious and enters only on high-certainty chances\<close>
     [0x7A33, 0x5065, 0x7B56, 0x7565, 0x66F4, 0x52A0, 0x8C28, 0x614E, 0xFF0C, 0x53EA,
      0x5728, 0x9AD8, 0x786E, 0x5B9A, 0x6027, 0x673A, 0x4F1A, 0x65F6, 0x5165, 0x573A,
      0x0A],
     [0x0A],
     \<comment> \<open>trending market:\<close>
     [0x5355, 0x8FB9, 0x884C, 0x60C5, 0x5904, 0x7406, 0xFF1A, 0x0A],
     \<comment> \<open>- entry: at least 1 long frame (30m or 1h) + 2 medium frames (5m, 15m) point the same way\<close>
     [0x2D, 0x20, 0x5165, 0x573A, 0x6761, 0x4EF6, 0xFF1A, 0x81F3, 0x5C11, 0x31,
      0x4E2A, 0x957F, 0x5468, 0x671F, 0xFF08, 0x33, 0x30, 0x6D, 0x6216, 0x31,
      0x68, 0xFF09, 0x2B, 0x20, 0x32, 0x4E2A, 0x4E2D, 0x5468, 0x671F, 0xFF08,
      0x35, 0x6D, 0x3001, 0x31, 0x35, 0x6D, 0xFF09, 0x65B9, 0x5411, 0x4E00,
      0x81F4, 0x0A],
     \<comment> \<open>- position: standard size\<close>
     [0x2D, 0x20, 0x4ED3, 0x4F4D, 0x914D, 0x7F6E, 0xFF1A, 0x6807, 0x51C6, 0x4ED3,
      0x4F4D, 0x0A],
     \<comment> \<open>- leverage: chosen by signal strength, on the conservative side\<close>
     [0x2D, 0x20, 0x6760, 0x6746, 0x9009, 0x62E9, 0xFF1A, 0x6839, 0x636E, 0x4FE1,
      0x53F7, 0x5F3A, 0x5EA6, 0x9009, 0x62E9, 0xFF0C, 0x504F, 0x4FDD, 0x5B88, 0x0A],
     [0x0A],
     \<comment> \<open>range-bound market:\<close>
     [0x9707, 0x8361, 0x884C, 0x60C5, 0x5904, 0x7406, 0xFF1A, 0x0A],
     \<comment> \<open>- entry: at least 3-4 time frames agree and the long frame shows no ranging\<close>
     [0x2D, 0x20, 0x5165, 0x573A, 0x6761, 0x4EF6, 0xFF1A, 0x81F3, 0x5C11, 0x33,
      0x2D, 0x34, 0x4E2A, 0x65F6, 0x95F4, 0x6846, 0x67B6, 0x4E00, 0x81F4, 0xFF0C,
      0x4E14, 0x957F, 0x5468, 0x671F, 0x65E0, 0x9707, 0x8361, 0x7279, 0x5F81, 0x0A],
     \<comment> \<open>- position: reduced to the minimum\<close>
     [0x2D, 0x20, 0x4ED3, 0x4F4D, 0x914D, 0x7F6E, 0xFF1A, 0x964D, 0x4F4E, 0x4ED3,
      0x4F4D, 0x81F3, 0x6700, 0x5C0F, 0x0A],
     \<comment> \<open>- leverage: the lowest\<close>
     [0x2D, 0x20, 0x6760, 0x6746, 0x9009, 0x62E9, 0xFF1A, 0x4F7F, 0x7528, 0x6700,
      0x4F4E, 0x6760, 0x6746, 0x0A],
     \<comment> \<open>- frequency: stay out where possible\<close>
     [0x2D, 0x20, 0x4EA4, 0x6613, 0x9891, 0x7387, 0xFF1A, 0x5C3D, 0x91CF, 0x89C2,
      0x671B, 0x0A],
     [0x0A],
     \<comment> \<open>[summary of the conservative strategy]\<close>
     [0x3010, 0x7A33, 0x5065, 0x7B56, 0x7565, 0x603B, 0x7ED3, 0x3011, 0x0A],
     \<comment> \<open>- core principle: time frames in layers, the long one judges the trend, the medium one confirms the signal, the short one gives the entry\<close>
     [0x2D, 0x20, 0x6838, 0x5FC3, 0x539F, 0x5219, 0xFF1A, 0x65F6, 0x95F4, 0x6846,
      0x67B6, 0x5206, 0x5C42, 0x4F7F, 0x7528, 0xFF0C, 0x957F, 0x5468, 0x671F, 0x5224,
      0x65AD, 0x8D8B, 0x52BF, 0xFF0C, 0x4E2D, 0x5468, 0x671F, 0x9A8C, 0x8BC1, 0x4FE1,
      0x53F7, 0xFF0C, 0x77ED, 0x5468, 0x671F, 0x5165, 0x573A, 0x0A],
     \<comment> \<open>- in a trending market take part actively and let profits run (long-frame trend clear)\<close>
     [0x2D, 0x20, 0x5728, 0x5355, 0x8FB9, 0x884C, 0x60C5, 0x79EF, 0x6781, 0x628A,
      0x63E1, 0xFF0C, 0x8BA9, 0x5229, 0x6DA6, 0x5145, 0x5206, 0x5954, 0x8DD1, 0xFF08,
      0x957F, 0x5468, 0x671F, 0x8D8B, 0x52BF, 0x660E, 0x786E, 0xFF09, 0x0A],
     \<comment> \<open>- in a range-bound market defend cautiously and avoid frequent trades (long frame ranging)\<close>
     [0x2D, 0x20, 0x5728, 0x9707, 0x8361, 0x884C, 0x60C5, 0x8C28, 0x614E, 0x9632,
      0x5B88, 0xFF0C, 0x907F, 0x514D, 0x9891, 0x7E41, 0x4EA4, 0x6613, 0xFF08, 0x957F,
      0x5468, 0x671F, 0x9707, 0x8361, 0x6DF7, 0x4E71, 0xFF09, 0x0A],
     \<comment> \<open>- recognise the market type and adjust the strategy (long frame first)\<close>
     [0x2D, 0x20, 0x6B63, 0x786E, 0x8BC6, 0x522B, 0x884C, 0x60C5, 0x7C7B, 0x578B,
      0xFF0C, 0x8C03, 0x6574, 0x4EA4, 0x6613, 0x7B56, 0x7565, 0xFF08, 0x4F18, 0x5148,
      0x770B, 0x957F, 0x5468, 0x671F, 0xFF09, 0x0A],
     \<comment> \<open>- wait patiently for high-quality chances, do not force trades (stay out when the long frame has no trend)\<close>
     [0x2D, 0x20, 0x8010, 0x5FC3, 0x7B49, 0x5F85, 0x9AD8, 0x8D28, 0x91CF, 0x673A,
      0x4F1A, 0xFF0C, 0x4E0D, 0x8981, 0x5F3A, 0x884C, 0x4EA4, 0x6613, 0xFF08, 0x957F,
      0x5468, 0x671F, 0x65E0, 0x8D8B, 0x52BF, 0x65F6, 0x89C2, 0x671B, 0xFF09, 0x0A],
     \<comment> \<open>- rather miss a chance than take a risk\<close>
     [0x2D, 0x20, 0x5B81, 0x53EF, 0x9519, 0x8FC7, 0x673A, 0x4F1A, 0xFF0C, 0x4E5F,
      0x4E0D, 0x5192, 0x9669, 0x0A]]"

text \<open>
  \<^verbatim>\<open>generateBalancedPrompt\<close> (conservative.ts): target return 20--40\%, entry rules
  for the two market regimes, and the summary of the balanced strategy.
\<close>

definition generateBalancedPrompt :: "StrategyParams \<Rightarrow> 'ctx \<Rightarrow> jsstring" where
  "generateBalancedPrompt params context = concat [
     [0x0A],
     \<comment> \<open>**target monthly return**: from 20-40%\<close>
     [0x2A, 0x2A, 0x76EE, 0x6807, 0x6708, 0x56DE, 0x62A5, 0x2A, 0x2A, 0xFF1A,
      0x32, 0x30, 0x2D, 0x34, 0x30, 0x25, 0x8D77, 0x6B65, 0x0A],
     \<comment> \<open>**profit/loss ratio sought**: >= 2:1 (let profits run, stop losing trades fast)\<close>
     [0x2A, 0x2A, 0x76C8, 0x4E8F, 0x6BD4, 0x8FFD, 0x6C42, 0x2A, 0x2A, 0xFF1A,
      0x2265, 0x32, 0x3A, 0x31, 0xFF08, 0x8BA9, 0x76C8, 0x5229, 0x5145, 0x5206,
      0x5954, 0x8DD1, 0xFF0C, 0x5FEB, 0x901F, 0x6B62, 0x635F, 0x52A3, 0x52BF, 0x4EA4,
      0x6613, 0xFF09, 0x0A],
     [0x0A],
     \<comment> \<open>[market recognition and response - balanced strategy]\<close>
     [0x3010, 0x884C, 0x60C5, 0x8BC6, 0x522B, 0x4E0E, 0x5E94, 0x5BF9, 0x20, 0x2D,
      0x20, 0x5E73, 0x8861, 0x7B56, 0x7565, 0x3011, 0x0A],
     [0x0A],
     \<comment> \<open>the balanced strategy takes part actively in trending markets and defends cautiously in range-bound ones\<close>
     [0x5E73, 0x8861, 0x7B56, 0x7565, 0x5728, 0x5355, 0x8FB9, 0x884C, 0x60C5, 0x79EF,
      0x6781, 0x53C2, 0x4E0E, 0xFF0C, 0x5728, 0x9707, 0x8361, 0x884C, 0x60C5, 0x8C28,
      0x614E, 0x9632, 0x5B88, 0x0A],
     [0x0A],
     \<comment> \<open>trending market:\<close>
     [0x5355, 0x8FB9, 0x884C, 0x60C5, 0x5904, 0x7406, 0xFF1A, 0x0A],
     \<comment> \<open>- entry: at least 1 long frame (30m or 1h) + 2 medium frames (5m, 15m) point the same way\<close>
     [0x2D, 0x20, 0x5165, 0x573A, 0x6761, 0x4EF6, 0xFF1A, 0x81F3, 0x5C11, 0x31,
      0x4E2A, 0x957F, 0x5468, 0x671F, 0xFF08, 0x33, 0x30, 0x6D, 0x6216, 0x31,
      0x68, 0xFF09, 0x2B, 0x20, 0x32, 0x4E2A, 0x4E2D, 0x5468, 0x671F, 0xFF08,
      0x35, 0x6D, 0x3001, 0x31, 0x35, 0x6D, 0xFF09, 0x65B9, 0x5411, 0x4E00,
      0x81F4, 0x0A],
     \<comment> \<open>- position: standard size\<close>
     [0x2D, 0x20, 0x4ED3, 0x4F4D, 0x914D, 0x7F6E, 0xFF1A, 0x6807, 0x51C6, 0x4ED3,
      0x4F4D, 0x0A],
     \<comment> \<open>- leverage: chosen by signal strength\<close>
     [0x2D, 0x20, 0x6760, 0x6746, 0x9009, 0x62E9, 0xFF1A, 0x6839, 0x636E, 0x4FE1,
      0x53F7, 0x5F3A, 0x5EA6, 0x9009, 0x62E9, 0x0A],
     [0x0A],
     \<comment> \<open>range-bound market:\<close>
     [0x9707, 0x8361, 0x884C, 0x60C5, 0x5904, 0x7406, 0xFF1A, 0x0A],
     \<comment> \<open>- entry: at least 3-4 time frames agree and the long frame shows no ranging\<close>
     [0x2D, 0x20, 0x5165, 0x573A, 0x6761, 0x4EF6, 0xFF1A, 0x81F3, 0x5C11, 0x33,
      0x2D, 0x34, 0x4E2A, 0x65F6, 0x95F4, 0x6846, 0x67B6, 0x4E00, 0x81F4, 0xFF0C,
      0x4E14, 0x957F, 0x5468, 0x671F, 0x65E0, 0x9707, 0x8361, 0x7279, 0x5F81, 0x0A],
     \<comment> \<open>- position: reduced to the minimum\<close>
     [0x2D, 0x20, 0x4ED3, 0x4F4D, 0x914D, 0x7F6E, 0xFF1A, 0x964D, 0x4F4E, 0x4ED3,
      0x4F4D, 0x81F3, 0x6700, 0x5C0F, 0x0A],
     \<comment> \<open>- leverage: the lowest\<close>
     [0x2D, 0x20, 0x6760, 0x6746, 0x9009, 0x62E9, 0xFF1A, 0x4F7F, 0x7528, 0x6700,
      0x4F4E, 0x6760, 0x6746, 0x0A],
     [0x0A],
     \<comment> \<open>[summary of the balanced strategy]\<close>
     [0x3010, 0x5E73, 0x8861, 0x7B56, 0x7565, 0x603B, 0x7ED3, 0x3011, 0x0A],
     \<comment> \<open>- core principle: time frames in layers: the long one judges the trend, the medium one confirms the signal, the short one gives the entry\<close>
     [0x2D, 0x20, 0x6838, 0x5FC3, 0x539F, 0x5219, 0xFF1A, 0x65F6, 0x95F4, 0x6846,
      0x67B6, 0x5206, 0x5C42, 0x4F7F, 0x7528, 0xFF1A, 0x957F, 0x5468, 0x671F, 0x5224,
      0x65AD, 0x8D8B, 0x52BF, 0xFF0C, 0x4E2D, 0x5468, 0x671F, 0x9A8C, 0x8BC1, 0x4FE1,
      0x53F7, 0xFF0C, 0x77ED, 0x5468, 0x671F, 0x5165, 0x573A, 0x0A],
     \<comment> \<open>- in a trending market take part actively and let profits run (long-frame trend clear)\<close>
     [0x2D, 0x20, 0x5728, 0x5355, 0x8FB9, 0x884C, 0x60C5, 0x79EF, 0x6781, 0x628A,
      0x63E1, 0xFF0C, 0x8BA9, 0x5229, 0x6DA6, 0x5145, 0x5206, 0x5954, 0x8DD1, 0xFF08,
      0x957F, 0x5468, 0x671F, 0x8D8B, 0x52BF, 0x660E, 0x786E, 0xFF09, 0x0A],
     \<comment> \<open>- in a range-bound market defend cautiously and avoid frequent trades (long frame ranging)\<close>
     [0x2D, 0x20, 0x5728, 0x9707, 0x8361, 0x884C, 0x60C5, 0x8C28, 0x614E, 0x9632,
      0x5B88, 0xFF0C, 0x907F, 0x514D, 0x9891, 0x7E41, 0x4EA4, 0x6613, 0xFF08, 0x957F,
      0x5468, 0x671F, 0x9707, 0x8361, 0x6DF7, 0x4E71, 0xFF09, 0x0A],
     \<comment> \<open>- recognise the market type and adjust the strategy (long frame first)\<close>
     [0x2D, 0x20, 0x6B63, 0x786E, 0x8BC6, 0x522B, 0x884C, 0x60C5, 0x7C7B, 0x578B,
      0xFF0C, 0x8C03, 0x6574, 0x4EA4, 0x6613, 0x7B56, 0x7565, 0xFF08, 0x4F18, 0x5148,
      0x770B, 0x957F, 0x5468, 0x671F, 0xFF09, 0x0A],
     \<comment> \<open>- wait patiently for high-quality chances, do not force trades (stay out when the long frame has no trend)\<close>
     [0x2D, 0x20, 0x8010, 0x5FC3, 0x7B49, 0x5F85, 0x9AD8, 0x8D28, 0x91CF, 0x673A,
      0x4F1A, 0xFF0C, 0x4E0D, 0x8981, 0x5F3A, 0x884C, 0x4EA4, 0x6613, 0xFF08, 0x957F,
      0x5468, 0x671F, 0x65E0, 0x8D8B, 0x52BF, 0x65F6, 0x89C2, 0x671B, 0xFF09, 0x0A]]"

text \<open>
  \<^verbatim>\<open>generateAggressivePrompt\<close> (aggressive.ts): target return 30--50\%, entry rules
  with position sizes and leverages written into the text (28--32\%, 22--25 times in a
  trending market; 15--20\%, 15--18 times in a range-bound one), and the reminders of
  the aggressive strategy. The literal has no interpolation.
\<close>

definition generateAggressivePrompt :: "StrategyParams \<Rightarrow> 'ctx \<Rightarrow> jsstring" where
  "generateAggressivePrompt params context = concat [
     [0x0A],
     \<comment> \<open>**target monthly return**: 30-50% (accumulated from frequent small, certain profits)\<close>
     [0x2A, 0x2A, 0x76EE, 0x6807, 0x6708, 0x56DE, 0x62A5, 0x2A, 0x2A, 0xFF1A,
      0x33, 0x30, 0x2D, 0x35, 0x30, 0x25, 0xFF08, 0x901A, 0x8FC7, 0x9891,
      0x7E41, 0x7684, 0x5C0F, 0x786E, 0x5B9A, 0x6027, 0x76C8, 0x5229, 0x7D2F, 0x79EF,
      0xFF09, 0x0A],
     \<comment> \<open>**profit/loss ratio sought**: >= 2:1 (the aggressive strategy profits often, with a moderately lower ratio made up by a high win rate)\<close>
     [0x2A, 0x2A, 0x76C8, 0x4E8F, 0x6BD4, 0x8FFD, 0x6C42, 0x2A, 0x2A, 0xFF1A,
      0x2265, 0x32, 0x3A, 0x31, 0xFF08, 0x6FC0, 0x8FDB, 0x7B56, 0x7565, 0x6CE8,
      0x91CD, 0x9891, 0x7E41, 0x83B7, 0x5229, 0xFF0C, 0x76C8, 0x4E8F, 0x6BD4, 0x9002,
      0x5EA6, 0x964D, 0x4F4E, 0xFF0C, 0x901A, 0x8FC7, 0x9AD8, 0x80DC, 0x7387, 0x8865,
      0x507F, 0xFF09, 0x0A],
     [0x0A],
     \<comment> \<open>[market recognition and response - core of the aggressive strategy]\<close>
     [0x3010, 0x884C, 0x60C5, 0x8BC6, 0x522B, 0x4E0E, 0x5E94, 0x5BF9, 0x20, 0x2D,
      0x20, 0x6FC0, 0x8FDB, 0x7B56, 0x7565, 0x6838, 0x5FC3, 0x3011, 0x0A],
     [0x0A],
     \<comment> \<open>the core tension of the aggressive strategy: attack in trending markets, defend strictly in range-bound ones\<close>
     [0x6FC0, 0x8FDB, 0x7B56, 0x7565, 0x7684, 0x6838, 0x5FC3, 0x77DB, 0x76FE, 0xFF1A,
      0x5728, 0x5355, 0x8FB9, 0x884C, 0x60C5, 0x79EF, 0x6781, 0x8FDB, 0x653B, 0xFF0C,
      0x5728, 0x9707, 0x8361, 0x884C, 0x60C5, 0x4E25, 0x683C, 0x9632, 0x5B88, 0x0A],
     [0x0A],
     \<comment> \<open>trending market:\<close>
     [0x5355, 0x8FB9, 0x884C, 0x60C5, 0x5904, 0x7406, 0xFF1A, 0x0A],
     \<comment> \<open>- entry: [required] at least 1 long frame (30m or 1h) with a clear trend + at least 1 medium frame (5m or 15m) in the same direction\<close>
     [0x2D, 0x20, 0x5165, 0x573A, 0x6761, 0x4EF6, 0xFF1A, 0x3010, 0x5FC5, 0x987B,
      0x3011, 0x81F3, 0x5C11, 0x31, 0x4E2A, 0x957F, 0x5468, 0x671F, 0xFF08, 0x33,
      0x30, 0x6D, 0x6216, 0x31, 0x68, 0xFF09, 0x8D8B, 0x52BF, 0x660E, 0x786E,
      0x20, 0x2B, 0x20, 0x81F3, 0x5C11, 0x31, 0x4E2A, 0x4E2D, 0x5468, 0x671F,
      0xFF08, 0x35, 0x6D, 0x6216, 0x31, 0x35, 0x6D, 0xFF09, 0x4E0E, 0x957F,
      0x5468, 0x671F, 0x65B9, 0x5411, 0x4E00, 0x81F4, 0x0A],
     \<comment> \<open>- position: a larger size (28-32%), to use the trend fully\<close>
     [0x2D, 0x20, 0x4ED3, 0x4F4D, 0x914D, 0x7F6E, 0xFF1A, 0x4F7F, 0x7528, 0x8F83,
      0x5927, 0x4ED3, 0x4F4D, 0xFF08, 0x32, 0x38, 0x2D, 0x33, 0x32, 0x25,
      0xFF09, 0xFF0C, 0x5145, 0x5206, 0x628A, 0x63E1, 0x8D8B, 0x52BF, 0x0A],
     \<comment> \<open>- leverage: higher leverage (22-25 times), to seize the chance\<close>
     [0x2D, 0x20, 0x6760, 0x6746, 0x9009, 0x62E9, 0xFF1A, 0x79EF, 0x6781, 0x4F7F,
      0x7528, 0x8F83, 0x9AD8, 0x6760, 0x6746, 0xFF08, 0x32, 0x32, 0x2D, 0x32,
      0x35, 0x500D, 0xFF09, 0xFF0C, 0x6293, 0x4F4F, 0x673A, 0x4F1A, 0x0A],
     \<comment> \<open>- key reminder: trending markets are the main profit source of the aggressive strategy, but the long frame must confirm them!\<close>
     [0x2D, 0x20, 0x5173, 0x952E, 0x63D0, 0x9192, 0xFF1A, 0x5355, 0x8FB9, 0x884C,
      0x60C5, 0x662F, 0x6FC0, 0x8FDB, 0x7B56, 0x7565, 0x7684, 0x6838, 0x5FC3, 0x76C8,
      0x5229, 0x6765, 0x6E90, 0xFF0C, 0x4F46, 0x5FC5, 0x987B, 0x7531, 0x957F, 0x5468,
      0x671F, 0x786E, 0x8BA4, 0xFF01, 0x0A],
     [0x0A],
     \<comment> \<open>range-bound market:\<close>
     [0x9707, 0x8361, 0x884C, 0x60C5, 0x5904, 0x7406, 0xFF1A, 0x0A],
     \<comment> \<open>- [mandatory] no frequent opening in range-bound markets, the main source of losses!\<close>
     [0x2D, 0x20, 0x3010, 0x5F3A, 0x5236, 0x89C4, 0x5219, 0x3011, 0x9707, 0x8361,
      0x884C, 0x60C5, 0x7981, 0x6B62, 0x9891, 0x7E41, 0x5F00, 0x4ED3, 0xFF0C, 0x8FD9,
      0x662F, 0x4E8F, 0x635F, 0x7684, 0x4E3B, 0x8981, 0x6765, 0x6E90, 0xFF01, 0x0A],
     \<comment> \<open>- entry: [required] at least 1 long frame (30m or 1h) + 2 medium frames (5m, 15m) agree fully\<close>
     [0x2D, 0x20, 0x5165, 0x573A, 0x6761, 0x4EF6, 0xFF1A, 0x3010, 0x5FC5, 0x987B,
      0x3011, 0x81F3, 0x5C11, 0x31, 0x4E2A, 0x957F, 0x5468, 0x671F, 0xFF08, 0x33,
      0x30, 0x6D, 0x6216, 0x31, 0x68, 0xFF09, 0x2B, 0x20, 0x32, 0x4E2A,
      0x4E2D, 0x5468, 0x671F, 0xFF08, 0x35, 0x6D, 0x3001, 0x31, 0x35, 0x6D,
      0xFF09, 0x5B8C, 0x5168, 0x4E00, 0x81F4, 0x0A],
     \<comment> \<open>- position: much reduced (15-20%), to avoid being stopped out by the ranging\<close>
     [0x2D, 0x20, 0x4ED3, 0x4F4D, 0x914D, 0x7F6E, 0xFF1A, 0x5927, 0x5E45, 0x964D,
      0x4F4E, 0x4ED3, 0x4F4D, 0xFF08, 0x31, 0x35, 0x2D, 0x32, 0x30, 0x25,
      0xFF09, 0xFF0C, 0x907F, 0x514D, 0x9707, 0x8361, 0x6B62, 0x635F, 0x0A],
     \<comment> \<open>- leverage: reduced (15-18 times), to control risk\<close>
     [0x2D, 0x20, 0x6760, 0x6746, 0x9009, 0x62E9, 0xFF1A, 0x964D, 0x4F4E, 0x6760,
      0x6746, 0xFF08, 0x31, 0x35, 0x2D, 0x31, 0x38, 0x500D, 0xFF09, 0xFF0C,
      0x63A7, 0x5236, 0x98CE, 0x9669, 0x0A],
     \<comment> \<open>- key warning: frequent trades in a range-bound market = frequent stop-losses + fee losses, hold back!\<close>
     [0x2D, 0x20, 0x5173, 0x952E, 0x8B66, 0x544A, 0xFF1A, 0x9707, 0x8361, 0x884C,
      0x60C5, 0x9891, 0x7E41, 0x4EA4, 0x6613, 0x3D, 0x9891, 0x7E41, 0x6B62, 0x635F,
      0x2B, 0x624B, 0x7EED, 0x8D39, 0x4E8F, 0x635F, 0xFF0C, 0x5FC5, 0x987B, 0x514B,
      0x5236, 0xFF01, 0x0A],
     [0x0A],
     \<comment> \<open>[special reminders of the aggressive strategy]\<close>
     [0x3010, 0x6FC0, 0x8FDB, 0x7B56, 0x7565, 0x7279, 0x522B, 0x63D0, 0x9192, 0x3011,
      0x0A],
     \<comment> \<open>- core principle: the long frame confirms the trend, the medium one the signal, the short one finds the entry\<close>
     [0x2D, 0x20, 0x6838, 0x5FC3, 0x539F, 0x5219, 0xFF1A, 0x957F, 0x5468, 0x671F,
      0x786E, 0x8BA4, 0x8D8B, 0x52BF, 0xFF0C, 0x4E2D, 0x5468, 0x671F, 0x9A8C, 0x8BC1,
      0x4FE1, 0x53F7, 0xFF0C, 0x77ED, 0x5468, 0x671F, 0x5BFB, 0x627E, 0x5165, 0x573A,
      0x70B9, 0x0A],
     \<comment> \<open>- full attack in a trending market = clear long-frame trend + large position + high leverage + adding to positions\<close>
     [0x2D, 0x20, 0x5355, 0x8FB9, 0x884C, 0x60C5, 0x5168, 0x529B, 0x8FDB, 0x653B,
      0x20, 0x3D, 0x20, 0x957F, 0x5468, 0x671F, 0x8D8B, 0x52BF, 0x660E, 0x786E,
      0x20, 0x2B, 0x20, 0x5927, 0x4ED3, 0x4F4D, 0x20, 0x2B, 0x20, 0x9AD8,
      0x6760, 0x6746, 0x20, 0x2B, 0x20, 0x79EF, 0x6781, 0x52A0, 0x4ED3, 0x0A],
     \<comment> \<open>- strict defence in a range-bound market = ranging long frame + small position + low leverage + high standards\<close>
     [0x2D, 0x20, 0x9707, 0x8361, 0x884C, 0x60C5, 0x4E25, 0x683C, 0x9632, 0x5B88,
      0x20, 0x3D, 0x20, 0x957F, 0x5468, 0x671F, 0x9707, 0x8361, 0x20, 0x2B,
      0x20, 0x5C0F, 0x4ED3, 0x4F4D, 0x20, 0x2B, 0x20, 0x4F4E, 0x6760, 0x6746,
      0x20, 0x2B, 0x20, 0x9AD8, 0x6807, 0x51C6, 0x0A],
     \<comment> \<open>- key to success: do the right thing in the right market (attack when trending, defend when ranging)\<close>
     [0x2D, 0x20, 0x6210, 0x529F, 0x8981, 0x8BC0, 0xFF1A, 0x5728, 0x5BF9, 0x7684,
      0x884C, 0x60C5, 0x505A, 0x5BF9, 0x7684, 0x4E8B, 0xFF08, 0x5355, 0x8FB9, 0x8FDB,
      0x653B, 0x3001, 0x9707, 0x8361, 0x9632, 0x5B88, 0xFF09, 0x0A],
     \<comment> \<open>- root of failure: opening on short frames alone (1m, 3m) = frequent stop-losses\<close>
     [0x2D, 0x20, 0x5931, 0x8D25, 0x6839, 0x6E90, 0xFF1A, 0x4EC5, 0x51ED, 0x77ED,
      0x5468, 0x671F, 0xFF08, 0x31, 0x6D, 0x3001, 0x33, 0x6D, 0xFF09, 0x5C31,
      0x5F00, 0x4ED3, 0x20, 0x3D, 0x20, 0x9891, 0x7E41, 0x6B62, 0x635F, 0x0A],
     \<comment> \<open>- iron rule: without a clear trend on the long frames (30m, 1h), never open on a short-frame signal!\<close>
     [0x2D, 0x20, 0x94C1, 0x5F8B, 0xFF1A, 0x957F, 0x5468, 0x671F, 0xFF08, 0x33,
      0x30, 0x6D, 0x3001, 0x31, 0x68, 0xFF09, 0x6CA1, 0x6709, 0x660E, 0x786E,
      0x8D8B, 0x52BF, 0x65F6, 0xFF0C, 0x7EDD, 0x4E0D, 0x80FD, 0x56E0, 0x4E3A, 0x77ED,
      0x5468, 0x671F, 0x4FE1, 0x53F7, 0x5C31, 0x5F00, 0x4ED3, 0xFF01, 0x0A]]"

text \<open>
  The swing-trend literal interpolates two cut points of the leverage range, each
  written out twice in the source as
  \<^verbatim>\<open>Math.ceil(params.leverageMin + (params.leverageMax - params.leverageMin) * f)\<close>
  with \<^verbatim>\<open>f\<close> the literal 0.33 or 0.67; \<open>bucketBoundary\<close> names that expression.
\<close>

definition bucketBoundary :: "StrategyParams \<Rightarrow> real \<Rightarrow> real" where
  "bucketBoundary params f =
     Math_ceil (leverageMin params + (leverageMax params - leverageMin params) * f)"

text \<open>
  \<^verbatim>\<open>generateSwingTrendPrompt\<close> (aggressive.ts): after the target return, a note that
  the automatic monitor checks every 10 seconds, that the AI only opens positions, that
  closing is done entirely by the automatic monitor and that the AI must not call
  \<^verbatim>\<open>closePosition\<close>; then the three stop-loss rules by leverage sub-range and the
  three trailing-stop rules, interpolated from the record; then the duties of the AI,
  the entry rules and the summary.
\<close>

definition generateSwingTrendPrompt :: "StrategyParams \<Rightarrow> 'ctx \<Rightarrow> jsstring" where
  "generateSwingTrendPrompt params context = concat [
     [0x0A],
     \<comment> \<open>**target monthly return**: from 20-30%\<close>
     [0x2A, 0x2A, 0x76EE, 0x6807, 0x6708, 0x56DE, 0x62A5, 0x2A, 0x2A, 0xFF1A,
      0x32, 0x30, 0x2D, 0x33, 0x30, 0x25, 0x8D77, 0x6B65, 0x0A],
     \<comment> \<open>**profit/loss ratio sought**: >= 2:1 (let profits run, stop losing trades fast)\<close>
     [0x2A, 0x2A, 0x76C8, 0x4E8F, 0x6BD4, 0x8FFD, 0x6C42, 0x2A, 0x2A, 0xFF1A,
      0x2265, 0x32, 0x3A, 0x31, 0xFF08, 0x8BA9, 0x76C8, 0x5229, 0x5145, 0x5206,
      0x5954, 0x8DD1, 0xFF0C, 0x5FEB, 0x901F, 0x6B62, 0x635F, 0x52A3, 0x52BF, 0x4EA4,
      0x6613, 0xFF09, 0x0A],
     [0x0A],
     \<comment> \<open>[market recognition and response - swing-trend strategy]\<close>
     [0x3010, 0x884C, 0x60C5, 0x8BC6, 0x522B, 0x4E0E, 0x5E94, 0x5BF9, 0x20, 0x2D,
      0x20, 0x6CE2, 0x6BB5, 0x8D8B, 0x52BF, 0x7B56, 0x7565, 0x3011, 0x0A],
     [0x0A],
     \<comment> \<open>the swing-trend strategy catches mid-term trends; positions are held for up to several days\<close>
     [0x6CE2, 0x6BB5, 0x8D8B, 0x52BF, 0x7B56, 0x7565, 0x6CE8, 0x91CD, 0x6355, 0x6349,
      0x4E2D, 0x671F, 0x8D8B, 0x52BF, 0xFF0C, 0x6301, 0x4ED3, 0x65F6, 0x95F4, 0x53EF,
      0x8FBE, 0x6570, 0x5929, 0x0A],
     [0x0A],
     \<comment> \<open>[special note - automatic monitoring protection]\<close>
     [0x3010, 0x7279, 0x6B8A, 0x8BF4, 0x660E, 0x20, 0x2D, 0x20, 0x81EA, 0x52A8,
      0x76D1, 0x63A7, 0x4FDD, 0x62A4, 0x3011, 0x0A],
     \<comment> \<open>this strategy has automatically monitored stop-loss and trailing stop switched on (checked every 10 seconds):\<close>
     [0x672C, 0x7B56, 0x7565, 0x542F, 0x7528, 0x4E86, 0x81EA, 0x52A8, 0x76D1, 0x63A7,
      0x6B62, 0x635F, 0x548C, 0x79FB, 0x52A8, 0x6B62, 0x76C8, 0xFF08, 0x6BCF, 0x31,
      0x30, 0x79D2, 0x68C0, 0x67E5, 0xFF09, 0xFF1A, 0x0A],
     \<comment> \<open>- the AI is responsible only for opening positions and market analysis\<close>
     [0x2D, 0x20, 0x41, 0x49, 0x53EA, 0x8D1F, 0x8D23, 0x5F00, 0x4ED3, 0x548C,
      0x5E02, 0x573A, 0x5206, 0x6790, 0x0A],
     \<comment> \<open>- closing is carried out entirely by the automatic monitor\<close>
     [0x2D, 0x20, 0x5E73, 0x4ED3, 0x5B8C, 0x5168, 0x7531, 0x81EA, 0x52A8, 0x76D1,
      0x63A7, 0x6267, 0x884C, 0x0A],
     \<comment> \<open>- the AI is forbidden to call closePosition on its own\<close>
     [0x2D, 0x20, 0x41, 0x49, 0x7981, 0x6B62, 0x4E3B, 0x52A8, 0x8C03, 0x7528,
      0x20, 0x63, 0x6C, 0x6F, 0x73, 0x65, 0x50, 0x6F, 0x73, 0x69,
      0x74, 0x69, 0x6F, 0x6E, 0x0A],
     [0x0A],
     \<comment> \<open>stop-loss rules of the automatic monitor (by leverage):\<close>
     [0x81EA, 0x52A8, 0x76D1, 0x63A7, 0x6B62, 0x635F, 0x89C4, 0x5219, 0xFF08, 0x6839,
      0x636E, 0x6760, 0x6746, 0x500D, 0x6570, 0xFF09, 0xFF1A, 0x0A],
     [0x2D, 0x20] @
       numberToString (leverageMin params) @
       [0x2D] @
       numberToString (bucketBoundary params 0.33) @
       \<comment> \<open>times leverage: at a loss of\<close>
       [0x500D, 0x6760, 0x6746, 0xFF1A, 0x4E8F, 0x635F, 0x20] @
       numberToString (low (stopLoss params)) @
       \<comment> \<open>% stop the loss\<close>
       [0x25, 0x20, 0x65F6, 0x6B62, 0x635F, 0x0A],
     [0x2D, 0x20] @
       numberToString (bucketBoundary params 0.33 + 1) @
       [0x2D] @
       numberToString (bucketBoundary params 0.67) @
       \<comment> \<open>times leverage: at a loss of\<close>
       [0x500D, 0x6760, 0x6746, 0xFF1A, 0x4E8F, 0x635F, 0x20] @
       numberToString (mid (stopLoss params)) @
       \<comment> \<open>% stop the loss\<close>
       [0x25, 0x20, 0x65F6, 0x6B62, 0x635F, 0x0A],
     [0x2D, 0x20] @
       numberToString (bucketBoundary params 0.67 + 1) @
       \<comment> \<open>times leverage and above: at a loss of\<close>
       [0x500D, 0x4EE5, 0x4E0A, 0x6760, 0x6746, 0xFF1A, 0x4E8F, 0x635F, 0x20] @
       numberToString (high (stopLoss params)) @
       \<comment> \<open>% stop the loss\<close>
       [0x25, 0x20, 0x65F6, 0x6B62, 0x635F, 0x0A],
     [0x0A],
     \<comment> \<open>trailing-stop rules of the automatic monitor (3 levels):\<close>
     [0x81EA, 0x52A8, 0x76D1, 0x63A7, 0x79FB, 0x52A8, 0x6B62, 0x76C8, 0x89C4, 0x5219,
      0xFF08, 0x33, 0x7EA7, 0xFF09, 0xFF1A, 0x0A],
     \<comment> \<open>- Level 1: when the peak reaches\<close>
     [0x2D, 0x20, 0x4C, 0x65, 0x76, 0x65, 0x6C, 0x20, 0x31, 0x3A,
      0x20, 0x5CF0, 0x503C, 0x8FBE, 0x5230, 0x20] @
       numberToString (TrailingLevel.trigger (level1 (trailingStop params))) @
       \<comment> \<open>%, on falling back to\<close>
       [0x25, 0x20, 0x65F6, 0xFF0C, 0x56DE, 0x843D, 0x81F3, 0x20] @
       numberToString (stopAt (level1 (trailingStop params))) @
       \<comment> \<open>% close the position\<close>
       [0x25, 0x20, 0x5E73, 0x4ED3, 0x0A],
     \<comment> \<open>- Level 2: when the peak reaches\<close>
     [0x2D, 0x20, 0x4C, 0x65, 0x76, 0x65, 0x6C, 0x20, 0x32, 0x3A,
      0x20, 0x5CF0, 0x503C, 0x8FBE, 0x5230, 0x20] @
       numberToString (TrailingLevel.trigger (level2 (trailingStop params))) @
       \<comment> \<open>%, on falling back to\<close>
       [0x25, 0x20, 0x65F6, 0xFF0C, 0x56DE, 0x843D, 0x81F3, 0x20] @
       numberToString (stopAt (level2 (trailingStop params))) @
       \<comment> \<open>% close the position\<close>
       [0x25, 0x20, 0x5E73, 0x4ED3, 0x0A],
     \<comment> \<open>- Level 3: when the peak reaches\<close>
     [0x2D, 0x20, 0x4C, 0x65, 0x76, 0x65, 0x6C, 0x20, 0x33, 0x3A,
      0x20, 0x5CF0, 0x503C, 0x8FBE, 0x5230, 0x20] @
       numberToString (TrailingLevel.trigger (level3 (trailingStop params))) @
       \<comment> \<open>%, on falling back to\<close>
       [0x25, 0x20, 0x65F6, 0xFF0C, 0x56DE, 0x843D, 0x81F3, 0x20] @
       numberToString (stopAt (level3 (trailingStop params))) @
       \<comment> \<open>% close the position\<close>
       [0x25, 0x20, 0x5E73, 0x4ED3, 0x0A],
     [0x0A],
     \<comment> \<open>[duties of the AI]\<close>
     [0x3010, 0x41, 0x49, 0x804C, 0x8D23, 0x3011, 0x0A],
     \<comment> \<open>- concentrate on market analysis and the decision to open\<close>
     [0x2D, 0x20, 0x4E13, 0x6CE8, 0x4E8E, 0x5E02, 0x573A, 0x5206, 0x6790, 0x548C,
      0x5F00, 0x4ED3, 0x51B3, 0x7B56, 0x0A],
     \<comment> \<open>- watch the state of the positions and describe it in the report\<close>
     [0x2D, 0x20, 0x76D1, 0x63A7, 0x6301, 0x4ED3, 0x72B6, 0x6001, 0x5E76, 0x5728,
      0x62A5, 0x544A, 0x4E2D, 0x8BF4, 0x660E, 0x0A],
     \<comment> \<open>- analyse technical indicators and the health of the trend\<close>
     [0x2D, 0x20, 0x5206, 0x6790, 0x6280, 0x672F, 0x6307, 0x6807, 0x548C, 0x8D8B,
      0x52BF, 0x5065, 0x5EB7, 0x5EA6, 0x0A],
     \<comment> \<open>- closing a position on its own is forbidden\<close>
     [0x2D, 0x20, 0x7981, 0x6B62, 0x4E3B, 0x52A8, 0x6267, 0x884C, 0x5E73, 0x4ED3,
      0x64CD, 0x4F5C, 0x0A],
     \<comment> \<open>- let the automatic monitor handle all closing\<close>
     [0x2D, 0x20, 0x8BA9, 0x81EA, 0x52A8, 0x76D1, 0x63A7, 0x81EA, 0x52A8, 0x5904,
      0x7406, 0x6240, 0x6709, 0x5E73, 0x4ED3, 0x903B, 0x8F91, 0x0A],
     [0x0A],
     \<comment> \<open>trending market:\<close>
     [0x5355, 0x8FB9, 0x884C, 0x60C5, 0x5904, 0x7406, 0xFF1A, 0x0A],
     \<comment> \<open>- entry: the 1, 3, 5 and 15 minute frames must all agree strongly\<close>
     [0x2D, 0x20, 0x5165, 0x573A, 0x6761, 0x4EF6, 0xFF1A, 0x5FC5, 0x987B, 0x31,
      0x5206, 0x949F, 0x3001, 0x33, 0x5206, 0x949F, 0x3001, 0x35, 0x5206, 0x949F,
      0x3001, 0x31, 0x35, 0x5206, 0x949F, 0x8FD9, 0x34, 0x4E2A, 0x65F6, 0x95F4,
      0x6846, 0x67B6, 0x4FE1, 0x53F7, 0x5168, 0x90E8, 0x5F3A, 0x70C8, 0x4E00, 0x81F4,
      0x0A],
     \<comment> \<open>- position: standard size (20-35%)\<close>
     [0x2D, 0x20, 0x4ED3, 0x4F4D, 0x914D, 0x7F6E, 0xFF1A, 0x6807, 0x51C6, 0x4ED3,
      0x4F4D, 0xFF08, 0x32, 0x30, 0x2D, 0x33, 0x35, 0x25, 0xFF09, 0x0A],
     \<comment> \<open>- leverage: low (2-5 times)\<close>
     [0x2D, 0x20, 0x6760, 0x6746, 0x9009, 0x62E9, 0xFF1A, 0x4F4E, 0x6760, 0x6746,
      0xFF08, 0x32, 0x2D, 0x35, 0x500D, 0xFF09, 0x0A],
     \<comment> \<open>- hold patiently, let profits run\<close>
     [0x2D, 0x20, 0x8010, 0x5FC3, 0x6301, 0x4ED3, 0xFF0C, 0x8BA9, 0x5229, 0x6DA6,
      0x5145, 0x5206, 0x5954, 0x8DD1, 0x0A],
     [0x0A],
     \<comment> \<open>range-bound market:\<close>
     [0x9707, 0x8361, 0x884C, 0x60C5, 0x5904, 0x7406, 0xFF1A, 0x0A],
     \<comment> \<open>- defend strictly\<close>
     [0x2D, 0x20, 0x4E25, 0x683C, 0x9632, 0x5B88, 0x0A],
     \<comment> \<open>- raise the entry standard\<close>
     [0x2D, 0x20, 0x63D0, 0x9AD8, 0x5165, 0x573A, 0x6807, 0x51C6, 0x0A],
     \<comment> \<open>- reduce position and leverage\<close>
     [0x2D, 0x20, 0x964D, 0x4F4E, 0x4ED3, 0x4F4D, 0x548C, 0x6760, 0x6746, 0x0A],
     [0x0A],
     \<comment> \<open>[summary of the swing-trend strategy]\<close>
     [0x3010, 0x6CE2, 0x6BB5, 0x8D8B, 0x52BF, 0x7B56, 0x7565, 0x603B, 0x7ED3, 0x3011,
      0x0A],
     \<comment> \<open>- core principle: wait patiently for high-quality trend signals, hold for up to several days\<close>
     [0x2D, 0x20, 0x6838, 0x5FC3, 0x539F, 0x5219, 0xFF1A, 0x8010, 0x5FC3, 0x7B49,
      0x5F85, 0x9AD8, 0x8D28, 0x91CF, 0x8D8B, 0x52BF, 0x4FE1, 0x53F7, 0xFF0C, 0x6301,
      0x4ED3, 0x65F6, 0x95F4, 0x53EF, 0x8FBE, 0x6570, 0x5929, 0x0A],
     \<comment> \<open>- 20-minute cycle, trend quality over trading frequency\<close>
     [0x2D, 0x20, 0x32, 0x30, 0x5206, 0x949F, 0x6267, 0x884C, 0x5468, 0x671F,
      0xFF0C, 0x6CE8, 0x91CD, 0x8D8B, 0x52BF, 0x8D28, 0x91CF, 0x800C, 0x975E, 0x4EA4,
      0x6613, 0x9891, 0x7387, 0x0A],
     \<comment> \<open>- the automatic monitor protects the profit, the AI concentrates on opening and analysis\<close>
     [0x2D, 0x20, 0x81EA, 0x52A8, 0x76D1, 0x63A7, 0x4FDD, 0x62A4, 0x5229, 0x6DA6,
      0xFF0C, 0x41, 0x49, 0x4E13, 0x6CE8, 0x4E8E, 0x5F00, 0x4ED3, 0x548C, 0x5206,
      0x6790, 0x0A],
     \<comment> \<open>- let profits run, do not close lightly\<close>
     [0x2D, 0x20, 0x8BA9, 0x5229, 0x6DA6, 0x5145, 0x5206, 0x5954, 0x8DD1, 0xFF0C,
      0x4E0D, 0x8981, 0x8F7B, 0x6613, 0x5E73, 0x4ED3, 0x0A]]"

section \<open>The profiles as one family\<close>

text \<open>
  The five derivation functions under one name, so that a statement can range over the
  profiles.
\<close>

datatype Profile = UltraShort | Conservative | Balanced | Aggressive | SwingTrend

fun strategyOf :: "Profile \<Rightarrow> real \<Rightarrow> StrategyParams" where
  "strategyOf UltraShort = getUltraShortStrategy"
| "strategyOf Conservative = getConservativeStrategy"
| "strategyOf Balanced = getBalancedStrategy"
| "strategyOf Aggressive = getAggressiveStrategy"
| "strategyOf SwingTrend = getSwingTrendStrategy"

text \<open>
  The scheme the specification gives for a leverage bound, to be compared with the five
  functions above: a bound is either the system maximum scaled by a fraction, rounded up
  and floored at an absolute value, \<open>max(floor, ceil(systemMaxLeverage * fraction))\<close>, or
  the system maximum itself. The fractions and floors of each profile are those of its
  module.
\<close>

datatype LeverageRule = Scaled real real | SystemMax

fun applyRule :: "LeverageRule \<Rightarrow> real \<Rightarrow> real" where
  "applyRule (Scaled fraction lowest) systemMaxLeverage =
     max lowest (Math_ceil (systemMaxLeverage * fraction))"
| "applyRule SystemMax systemMaxLeverage = systemMaxLeverage"

fun lowerRule :: "Profile \<Rightarrow> LeverageRule" where
  "lowerRule UltraShort = Scaled 0.5 3"
| "lowerRule Conservative = Scaled 0.3 1"
| "lowerRule Balanced = Scaled 0.6 2"
| "lowerRule Aggressive = Scaled 0.85 3"
| "lowerRule SwingTrend = Scaled 0.2 2"

fun upperRule :: "Profile \<Rightarrow> LeverageRule" where
  "upperRule UltraShort = Scaled 0.75 5"
| "upperRule Conservative = Scaled 0.6 2"
| "upperRule Balanced = Scaled 0.85 3"
| "upperRule Aggressive = SystemMax"
| "upperRule SwingTrend = Scaled 0.5 5"

fun ruleFloor :: "LeverageRule \<Rightarrow> real" where
  "ruleFloor (Scaled fraction lowest) = lowest"
| "ruleFloor SystemMax = 0"

section \<open>The profile registry\<close>

text \<open>
  Modelled from the spec: the registry and \<^verbatim>\<open>deriveStrategy\<close> are not part of the three
  strategy modules. The specification describes a fixed, closed set of profile
  identifiers, each bound to its derivation function and its renderer, and a lookup that
  fails with a \<^verbatim>\<open>ConfigurationError\<close> naming the identifier when it is not in the set.
\<close>

datatype error = ConfigurationError string

definition derivationOf :: "string \<rightharpoonup> (real \<Rightarrow> StrategyParams)" where
  "derivationOf = map_of [
     (''ultra-short'', getUltraShortStrategy),
     (''conservative'', getConservativeStrategy),
     (''balanced'', getBalancedStrategy),
     (''aggressive'', getAggressiveStrategy),
     (''swing-trend'', getSwingTrendStrategy)]"

definition rendererOf :: "string \<rightharpoonup> (StrategyParams \<Rightarrow> 'ctx \<Rightarrow> jsstring)" where
  "rendererOf = map_of [
     (''ultra-short'', generateUltraShortPrompt),
     (''conservative'', generateConservativePrompt),
     (''balanced'', generateBalancedPrompt),
     (''aggressive'', generateAggressivePrompt),
     (''swing-trend'', generateSwingTrendPrompt)]"

definition profileIds :: "string list" where
  "profileIds = [''ultra-short'', ''conservative'', ''balanced'', ''aggressive'', ''swing-trend'']"

definition deriveStrategy :: "string \<Rightarrow> real \<Rightarrow> error + StrategyParams" where
  "deriveStrategy profileId systemMaxLeverage =
     (case derivationOf profileId of
        None \<Rightarrow> Inl (ConfigurationError profileId)
      | Some derive \<Rightarrow> Inr (derive systemMaxLeverage))"

section \<open>Reading the fields of a derived record\<close>

lemma Math_ceil_numeral_fraction [simp]:
  "Math_ceil (numeral a / numeral b) = of_int (- (- numeral a div numeral b))"
  "Math_ceil (numeral a) = numeral a"
  "Math_ceil 1 = 1"
  by (simp_all add: Math_ceil_def)

lemma fracDigits_numeral:
  "fracDigits (numeral k) r =
     (if r = 0 then []
      else (0x30 + nat \<lfloor>r * 10\<rfloor>) #
           fracDigits (pred_numeral k) (r * 10 - of_int \<lfloor>r * 10\<rfloor>))"
  by (simp add: numeral_eq_Suc)

lemma natDigits_numeral:
  "natDigits (numeral k) =
     (if (numeral k :: nat) < 10 then [0x30 + numeral k]
      else natDigits (numeral k div 10) @ [0x30 + numeral k mod 10])"
  "natDigits 0 = [0x30]"
  "natDigits (Suc 0) = [0x31]"
  by (simp_all add: natDigits.simps [of "numeral k"] natDigits.simps [of 0]
        natDigits.simps [of "Suc 0"])

lemmas numberToString_eval = numberToString_def natDigits_numeral fracDigits_numeral

lemma ultraShort_leverage:
  "leverageMin (getUltraShortStrategy n) = max 3 (Math_ceil (n * 0.5))"
  "leverageMax (getUltraShortStrategy n) = max 5 (Math_ceil (n * 0.75))"
  by (simp_all add: getUltraShortStrategy_def Let_def)

lemma conservative_leverage:
  "leverageMin (getConservativeStrategy n) = max 1 (Math_ceil (n * 0.3))"
  "leverageMax (getConservativeStrategy n) = max 2 (Math_ceil (n * 0.6))"
  by (simp_all add: getConservativeStrategy_def Let_def)

lemma balanced_leverage:
  "leverageMin (getBalancedStrategy n) = max 2 (Math_ceil (n * 0.6))"
  "leverageMax (getBalancedStrategy n) = max 3 (Math_ceil (n * 0.85))"
  by (simp_all add: getBalancedStrategy_def Let_def)

lemma aggressive_leverage:
  "leverageMin (getAggressiveStrategy n) = max 3 (Math_ceil (n * 0.85))"
  "leverageMax (getAggressiveStrategy n) = n"
  by (simp_all add: getAggressiveStrategy_def Let_def)

lemma swingTrend_leverage:
  "leverageMin (getSwingTrendStrategy n) = max 2 (Math_ceil (n * 0.2))"
  "leverageMax (getSwingTrendStrategy n) = max 5 (Math_ceil (n * 0.5))"
  by (simp_all add: getSwingTrendStrategy_def)

lemmas leverage_fields =
  ultraShort_leverage conservative_leverage balanced_leverage aggressive_leverage
  swingTrend_leverage

section \<open>Concrete derivations\<close>

text \<open>
  C5. Deriving the ultra-short profile from a system maximum of 25 gives the leverage
  range 13 to 19, position sizes 18 and 25, and leaves the thresholds to the AI
  (\<^verbatim>\<open>enableCodeLevelProtection\<close> is false).
\<close>

theorem ultraShort_at_25:
  "leverageMin (getUltraShortStrategy 25) = 13 \<and>
   leverageMax (getUltraShortStrategy 25) = 19 \<and>
   positionSizeMin (getUltraShortStrategy 25) = 18 \<and>
   positionSizeMax (getUltraShortStrategy 25) = 25 \<and>
   enableCodeLevelProtection (getUltraShortStrategy 25) = False"
  by (simp add: getUltraShortStrategy_def Let_def)

text \<open>
  C3. For every positive system maximum the aggressive profile returns that maximum
  itself as \<^verbatim>\<open>leverageMax\<close>, neither scaled nor floored, and switches the code-level
  protection on.
\<close>

theorem aggressive_uses_system_max:
  assumes "0 < n"
  shows "leverageMax (getAggressiveStrategy n) = n \<and>
         enableCodeLevelProtection (getAggressiveStrategy n) = True"
  by (simp add: getAggressiveStrategy_def Let_def)

theorem aggressive_uses_system_max_witness:
  "(0::real) < 25 \<and> leverageMax (getAggressiveStrategy 25) = 25 \<and>
   enableCodeLevelProtection (getAggressiveStrategy 25) = True"
  using aggressive_uses_system_max [of 25] by simp

text \<open>
  C1. The claim asks, for every profile at the system maxima 1, 2, 25, 100 and 1000000,
  for \<open>leverageMin \<le> leverageMax\<close>. The aggressive profile floors its lower bound at 3
  and takes the system maximum itself as upper bound, so below 3 the range it returns is
  inverted: from 1 it derives the range ``3 to 1'', from 2 the range ``3 to 2''.
\<close>

theorem aggressive_range_inverted_below_3:
  "leverageMin (getAggressiveStrategy 1) = 3 \<and> leverageMax (getAggressiveStrategy 1) = 1 \<and>
   leverageMin (getAggressiveStrategy 2) = 3 \<and> leverageMax (getAggressiveStrategy 2) = 2"
  by (simp add: aggressive_leverage)

text \<open>
  C6. At the system maximum 1 the aggressive profile recommends ``3 times'' for a normal
  signal, ``2 times'' for a good one and ``1 times'' for a strong one: the tiers
  decrease where the claim asks them not to. The cause is the inverted range of the
  aggressive profile below 3.
\<close>

theorem aggressive_tiers_decrease_at_1:
  "leverageRecommend (getAggressiveStrategy 1) =
     \<lparr>normal = [0x33, 0x500D], good = [0x32, 0x500D], strong = [0x31, 0x500D]\<rparr>"
  by (simp add: getAggressiveStrategy_def Let_def numberToString_eval)

section \<open>Leverage bounds of every profile\<close>

lemma Math_ceil_mono: "x \<le> y \<Longrightarrow> Math_ceil x \<le> Math_ceil y"
  by (simp add: Math_ceil_def ceiling_mono)

lemma Math_ceil_Ints: "Math_ceil x \<in> \<int>"
  by (simp add: Math_ceil_def)

lemma max_Ints: "a \<in> \<int> \<Longrightarrow> b \<in> \<int> \<Longrightarrow> max a b \<in> \<int>"
  by (simp add: max_def)

lemma scaled_le:
  assumes "0 < n" "f \<le> g"
  shows "Math_ceil (n * f) \<le> Math_ceil (n * g)"
  using assms by (intro Math_ceil_mono mult_left_mono) auto

text \<open>
  C2, as the code has it. For every profile and every positive system maximum, both
  bounds follow the scheme of the specification: \<open>leverageMin\<close> is
  \<open>max(floor, ceil(systemMaxLeverage * fraction))\<close>, an integer, at least 1 and at least
  its floor; for the four profiles other than the aggressive one \<open>leverageMax\<close> is such
  a value too, not below \<open>leverageMin\<close> and at most the larger of its floor and the
  system maximum rounded up. The aggressive profile's \<open>leverageMax\<close> is the system
  maximum itself. A floor wins over a small system maximum, so \<open>leverageMax\<close> is not
  bounded by the system maximum alone.
\<close>

theorem leverage_bounds_follow_scheme:
  assumes "0 < n"
  shows "leverageMin (strategyOf p n) = applyRule (lowerRule p) n \<and>
         leverageMax (strategyOf p n) = applyRule (upperRule p) n \<and>
         leverageMin (strategyOf p n) \<in> \<int> \<and>
         1 \<le> leverageMin (strategyOf p n) \<and>
         ruleFloor (lowerRule p) \<le> leverageMin (strategyOf p n) \<and>
         (p \<noteq> Aggressive \<longrightarrow>
            leverageMax (strategyOf p n) \<in> \<int> \<and>
            ruleFloor (upperRule p) \<le> leverageMax (strategyOf p n) \<and>
            leverageMin (strategyOf p n) \<le> leverageMax (strategyOf p n) \<and>
            leverageMax (strategyOf p n) \<le> max (ruleFloor (upperRule p)) (Math_ceil n))"
proof (cases p)
  case UltraShort
  show ?thesis
    using scaled_le[OF assms, of "0.5" "0.75"] scaled_le[OF assms, of "0.75" 1]
    by (simp add: UltraShort leverage_fields Math_ceil_Ints max_Ints) (simp add: max_def)
next
  case Conservative
  show ?thesis
    using scaled_le[OF assms, of "0.3" "0.6"] scaled_le[OF assms, of "0.6" 1]
    by (simp add: Conservative leverage_fields Math_ceil_Ints max_Ints) (simp add: max_def)
next
  case Balanced
  show ?thesis
    using scaled_le[OF assms, of "0.6" "0.85"] scaled_le[OF assms, of "0.85" 1]
    by (simp add: Balanced leverage_fields Math_ceil_Ints max_Ints) (simp add: max_def)
next
  case Aggressive
  show ?thesis
    by (simp add: Aggressive leverage_fields Math_ceil_Ints max_Ints)
next
  case SwingTrend
  show ?thesis
    using scaled_le[OF assms, of "0.2" "0.5"] scaled_le[OF assms, of "0.5" 1]
    by (simp add: SwingTrend leverage_fields Math_ceil_Ints max_Ints) (simp add: max_def)
qed

theorem leverage_bounds_follow_scheme_witness:
  "(0::real) < 25 \<and> Balanced \<noteq> Aggressive \<and>
   leverageMin (strategyOf Balanced 25) = 15 \<and>
   leverageMax (strategyOf Balanced 25) = 22 \<and>
   leverageMin (strategyOf Balanced 25) \<in> \<int> \<and>
   leverageMax (strategyOf Balanced 25) \<in> \<int> \<and>
   leverageMin (strategyOf Balanced 25) \<le> leverageMax (strategyOf Balanced 25) \<and>
   leverageMax (strategyOf Balanced 25) \<le> max 3 25"
  using leverage_bounds_follow_scheme [of 25 Balanced] by simp

text \<open>
  The claim as written also bounds \<open>leverageMax\<close> by the system maximum. From a system
  maximum of 1 the ultra-short profile derives \<open>leverageMax = 5\<close>: its floor.
\<close>

theorem ultraShort_floor_exceeds_system_max:
  "leverageMax (getUltraShortStrategy 1) = 5 \<and> \<not> leverageMax (getUltraShortStrategy 1) \<le> 1"
  by (simp add: ultraShort_leverage)

section \<open>Where the recommendation tiers are ordered\<close>

text \<open>
  In every profile the normal tier prints \<open>leverageMin\<close> and the strong tier
  \<open>leverageMax\<close>. In the four profiles other than the aggressive one the good tier
  prints a value between the two, for every positive system maximum, and so it does in
  the aggressive profile for every integer system maximum from 3 upwards.
\<close>

lemma recommend_tiers_carry_bounds:
  "normal (leverageRecommend (strategyOf p n)) =
     numberToString (leverageMin (strategyOf p n)) @ [0x500D] \<and>
   strong (leverageRecommend (strategyOf p n)) =
     numberToString (leverageMax (strategyOf p n)) @ [0x500D]"
  by (cases p)
     (simp_all add: getUltraShortStrategy_def getConservativeStrategy_def
        getBalancedStrategy_def getAggressiveStrategy_def getSwingTrendStrategy_def Let_def)

lemma midpoint_between:
  assumes "a \<le> b" "b \<in> \<int>"
  shows "a \<le> Math_ceil ((a + b) / 2) \<and> Math_ceil ((a + b) / 2) \<le> b"
proof -
  obtain k where k: "b = of_int k" using assms(2) by (auto elim: Ints_cases)
  have "a \<le> (a + b) / 2" using assms(1) by simp
  also have "\<dots> \<le> Math_ceil ((a + b) / 2)" by (simp add: Math_ceil_def)
  finally have lo: "a \<le> Math_ceil ((a + b) / 2)" .
  have "(a + b) / 2 \<le> of_int k" using assms(1) k by simp
  then have "Math_ceil ((a + b) / 2) \<le> b" unfolding Math_ceil_def k by (simp add: ceiling_le_iff)
  with lo show ?thesis by simp
qed

lemma recommend_tiers_ordered:
  assumes "0 < n" "p \<noteq> Aggressive"
  shows "\<exists>g. good (leverageRecommend (strategyOf p n)) = numberToString g @ [0x500D] \<and>
             leverageMin (strategyOf p n) \<le> g \<and> g \<le> leverageMax (strategyOf p n)"
proof (cases p)
  case UltraShort
  have "max 3 (Math_ceil (n * 0.5)) \<le> max 4 (Math_ceil (n * 0.625))"
    "max 4 (Math_ceil (n * 0.625)) \<le> max 5 (Math_ceil (n * 0.75))"
    using scaled_le[OF assms(1), of "0.5" "0.625"] scaled_le[OF assms(1), of "0.625" "0.75"]
    by (simp_all add: max_def)
  then show ?thesis
    unfolding UltraShort strategyOf.simps
    by (intro exI[of _ "max 4 (Math_ceil (n * 0.625))"])
       (simp add: getUltraShortStrategy_def Let_def)
next
  case Conservative
  have "max 1 (Math_ceil (n * 0.3)) \<le> max 2 (Math_ceil (n * 0.6))"
    using scaled_le[OF assms(1), of "0.3" "0.6"] by (simp add: max_def)
  from midpoint_between[OF this] show ?thesis
    unfolding Conservative strategyOf.simps
    by (intro exI[of _ "Math_ceil ((max 1 (Math_ceil (n * 0.3)) + max 2 (Math_ceil (n * 0.6))) / 2)"])
       (simp add: getConservativeStrategy_def Let_def max_Ints Math_ceil_Ints)
next
  case Balanced
  have "max 2 (Math_ceil (n * 0.6)) \<le> max 3 (Math_ceil (n * 0.85))"
    using scaled_le[OF assms(1), of "0.6" "0.85"] by (simp add: max_def)
  from midpoint_between[OF this] show ?thesis
    unfolding Balanced strategyOf.simps
    by (intro exI[of _ "Math_ceil ((max 2 (Math_ceil (n * 0.6)) + max 3 (Math_ceil (n * 0.85))) / 2)"])
       (simp add: getBalancedStrategy_def Let_def max_Ints Math_ceil_Ints)
next
  case Aggressive
  with assms show ?thesis by simp
next
  case SwingTrend
  have "max 2 (Math_ceil (n * 0.2)) \<le> max 3 (Math_ceil (n * 0.35))"
    "max 3 (Math_ceil (n * 0.35)) \<le> max 5 (Math_ceil (n * 0.5))"
    using scaled_le[OF assms(1), of "0.2" "0.35"] scaled_le[OF assms(1), of "0.35" "0.5"]
    by (simp_all add: max_def)
  then show ?thesis
    unfolding SwingTrend strategyOf.simps
    by (intro exI[of _ "max 3 (Math_ceil (n * 0.35))"])
       (simp add: getSwingTrendStrategy_def Let_def)
qed

lemma aggressive_tiers_ordered_from_3:
  assumes "n \<in> \<int>" "3 \<le> n"
  shows "\<exists>g. good (leverageRecommend (getAggressiveStrategy n)) = numberToString g @ [0x500D] \<and>
             leverageMin (getAggressiveStrategy n) \<le> g \<and> g \<le> leverageMax (getAggressiveStrategy n)"
proof -
  obtain k where k: "n = of_int k" using assms(1) by (auto elim: Ints_cases)
  have "n * 0.85 \<le> of_int k" using assms(2) k by simp
  then have "Math_ceil (n * 0.85) \<le> n" unfolding Math_ceil_def k by (simp add: ceiling_le_iff)
  with assms(2) have "max 3 (Math_ceil (n * 0.85)) \<le> n" by simp
  from midpoint_between[OF this assms(1)] show ?thesis
    by (intro exI[of _ "Math_ceil ((max 3 (Math_ceil (n * 0.85)) + n) / 2)"])
       (simp add: getAggressiveStrategy_def Let_def)
qed

section \<open>Trailing stops\<close>

text \<open>
  C7. In every profile, whatever the system maximum, the three trailing-stop levels
  rise strictly in \<open>trigger\<close> and in \<open>stopAt\<close> from level 1 to level 3, and at each
  level \<open>stopAt\<close> lies strictly below \<open>trigger\<close>.
\<close>

theorem trailingStop_levels_increase:
  "TrailingLevel.trigger (level1 (trailingStop (strategyOf p n)))
     < TrailingLevel.trigger (level2 (trailingStop (strategyOf p n))) \<and>
   TrailingLevel.trigger (level2 (trailingStop (strategyOf p n)))
     < TrailingLevel.trigger (level3 (trailingStop (strategyOf p n))) \<and>
   stopAt (level1 (trailingStop (strategyOf p n)))
     < stopAt (level2 (trailingStop (strategyOf p n))) \<and>
   stopAt (level2 (trailingStop (strategyOf p n)))
     < stopAt (level3 (trailingStop (strategyOf p n))) \<and>
   stopAt (level1 (trailingStop (strategyOf p n)))
     < TrailingLevel.trigger (level1 (trailingStop (strategyOf p n))) \<and>
   stopAt (level2 (trailingStop (strategyOf p n)))
     < TrailingLevel.trigger (level2 (trailingStop (strategyOf p n))) \<and>
   stopAt (level3 (trailingStop (strategyOf p n)))
     < TrailingLevel.trigger (level3 (trailingStop (strategyOf p n)))"
  by (cases p)
     (simp_all add: getUltraShortStrategy_def getConservativeStrategy_def
        getBalancedStrategy_def getAggressiveStrategy_def getSwingTrendStrategy_def Let_def)

section \<open>The leverage sub-ranges of the swing-trend text\<close>

text \<open>
  C8. For a record whose leverage bounds are integers with
  \<open>1 \<le> leverageMin \<le> leverageMax\<close>, the two cut points the renderer computes, at 33\%
  and at 67\% of the range and rounded up by \<^verbatim>\<open>Math.ceil\<close> as the bounds themselves
  are, lie between \<open>leverageMin\<close> and \<open>leverageMax\<close>.
\<close>

theorem bucketBoundary_within_range:
  assumes "leverageMin params \<in> \<int>" and "leverageMax params \<in> \<int>"
    and "1 \<le> leverageMin params" and "leverageMin params \<le> leverageMax params"
  shows "leverageMin params \<le> bucketBoundary params 0.33 \<and>
         bucketBoundary params 0.33 \<le> leverageMax params \<and>
         leverageMin params \<le> bucketBoundary params 0.67 \<and>
         bucketBoundary params 0.67 \<le> leverageMax params"
proof -
  obtain k where k: "leverageMax params = of_int k"
    using assms(2) by (auto elim: Ints_cases)
  have upper: "bucketBoundary params f \<le> leverageMax params" if "f \<le> 1" for f
  proof -
    have "(leverageMax params - leverageMin params) * f
            \<le> (leverageMax params - leverageMin params) * 1"
      using assms(4) that by (intro mult_left_mono) auto
    then have "leverageMin params + (leverageMax params - leverageMin params) * f \<le> of_int k"
      using k by simp
    then show ?thesis
      unfolding bucketBoundary_def Math_ceil_def k by (simp add: ceiling_le_iff)
  qed
  have lower: "leverageMin params \<le> bucketBoundary params f" if "0 \<le> f" for f
  proof -
    have "0 \<le> (leverageMax params - leverageMin params) * f"
      using assms(4) that by simp
    then have "leverageMin params
                 \<le> leverageMin params + (leverageMax params - leverageMin params) * f"
      by simp
    also have "\<dots> \<le> bucketBoundary params f"
      unfolding bucketBoundary_def Math_ceil_def by simp
    finally show ?thesis .
  qed
  show ?thesis
    using upper[of "0.33"] upper[of "0.67"] lower[of "0.33"] lower[of "0.67"] by simp
qed

theorem bucketBoundary_within_range_witness:
  "leverageMin (getSwingTrendStrategy 10) = 2 \<and>
   leverageMax (getSwingTrendStrategy 10) = 5 \<and>
   bucketBoundary (getSwingTrendStrategy 10) 0.33 = 3 \<and>
   bucketBoundary (getSwingTrendStrategy 10) 0.67 = 5 \<and>
   leverageMin (getSwingTrendStrategy 10) \<le> bucketBoundary (getSwingTrendStrategy 10) 0.33 \<and>
   bucketBoundary (getSwingTrendStrategy 10) 0.33 \<le> leverageMax (getSwingTrendStrategy 10) \<and>
   leverageMin (getSwingTrendStrategy 10) \<le> bucketBoundary (getSwingTrendStrategy 10) 0.67 \<and>
   bucketBoundary (getSwingTrendStrategy 10) 0.67 \<le> leverageMax (getSwingTrendStrategy 10)"
proof -
  have fields: "leverageMin (getSwingTrendStrategy 10) = 2"
    "leverageMax (getSwingTrendStrategy 10) = 5"
    by (simp_all add: swingTrend_leverage)
  have cuts: "bucketBoundary (getSwingTrendStrategy 10) 0.33 = 3"
    "bucketBoundary (getSwingTrendStrategy 10) 0.67 = 5"
    by (simp_all add: bucketBoundary_def fields)
  have "leverageMin (getSwingTrendStrategy 10) \<in> \<int>"
    "leverageMax (getSwingTrendStrategy 10) \<in> \<int>"
    "1 \<le> leverageMin (getSwingTrendStrategy 10)"
    "leverageMin (getSwingTrendStrategy 10) \<le> leverageMax (getSwingTrendStrategy 10)"
    by (simp_all add: fields)
  from bucketBoundary_within_range [OF this] fields cuts show ?thesis by simp
qed

section \<open>What the renderers put into the text\<close>

lemma member_sublist_concat: "x \<in> set xs \<Longrightarrow> sublist x (concat xs)"
proof -
  assume "x \<in> set xs"
  then obtain ys zs where "xs = ys @ x # zs"
    by (auto dest: split_list)
  then have "concat xs = concat ys @ x @ concat zs"
    by simp
  then show ?thesis
    unfolding sublist_def by blast
qed

text \<open>
  The swing-trend renderer writes the thresholds of the record into its text. For every
  record and every context the text contains, each as a full line:
  \<^item> the three stop-loss rules, for the leverage sub-ranges ``\<open>leverageMin\<close> to the 33\%
    cut point'', ``the 33\% cut point plus 1 to the 67\% cut point'' and ``the 67\% cut
    point plus 1 and above'', with the record's \<open>stopLoss.low\<close>, \<open>stopLoss.mid\<close> and
    \<open>stopLoss.high\<close>;
  \<^item> the three trailing-stop rules, with the record's \<open>trigger\<close> and \<open>stopAt\<close> of
    level 1, 2 and 3;
  \<^item> the sentence that closing is carried out entirely by the automatic monitor, and the
    sentence that the AI must not call \<^verbatim>\<open>closePosition\<close>.
\<close>

lemma swingTrend_prompt_states_thresholds:
  "sublist ([0x2D, 0x20] @ numberToString (leverageMin params) @ [0x2D] @
            numberToString (bucketBoundary params 0.33) @ [0x500D, 0x6760, 0x6746, 0xFF1A, 0x4E8F, 0x635F, 0x20] \<comment> \<open>times leverage: at a loss of\<close> @
            numberToString (low (stopLoss params)) @ [0x25, 0x20, 0x65F6, 0x6B62, 0x635F, 0x0A] \<comment> \<open>% stop the loss\<close>)
     (generateSwingTrendPrompt params context) \<and>
   sublist ([0x2D, 0x20] @ numberToString (bucketBoundary params 0.33 + 1) @ [0x2D] @
            numberToString (bucketBoundary params 0.67) @ [0x500D, 0x6760, 0x6746, 0xFF1A, 0x4E8F, 0x635F, 0x20] \<comment> \<open>times leverage: at a loss of\<close> @
            numberToString (mid (stopLoss params)) @ [0x25, 0x20, 0x65F6, 0x6B62, 0x635F, 0x0A] \<comment> \<open>% stop the loss\<close>)
     (generateSwingTrendPrompt params context) \<and>
   sublist ([0x2D, 0x20] @ numberToString (bucketBoundary params 0.67 + 1) @ [0x500D, 0x4EE5, 0x4E0A, 0x6760, 0x6746, 0xFF1A, 0x4E8F, 0x635F, 0x20] \<comment> \<open>times leverage and above: at a loss of\<close> @
            numberToString (high (stopLoss params)) @ [0x25, 0x20, 0x65F6, 0x6B62, 0x635F, 0x0A] \<comment> \<open>% stop the loss\<close>)
     (generateSwingTrendPrompt params context) \<and>
   sublist ([0x2D, 0x20, 0x4C, 0x65, 0x76, 0x65, 0x6C, 0x20, 0x31, 0x3A,
      0x20, 0x5CF0, 0x503C, 0x8FBE, 0x5230, 0x20] \<comment> \<open>- Level 1: when the peak reaches\<close> @
            numberToString (TrailingLevel.trigger (level1 (trailingStop params))) @
            \<comment> \<open>%, on falling back to\<close>
            [0x25, 0x20, 0x65F6, 0xFF0C, 0x56DE, 0x843D, 0x81F3, 0x20] @
            numberToString (stopAt (level1 (trailingStop params))) @ [0x25, 0x20, 0x5E73, 0x4ED3, 0x0A] \<comment> \<open>% close the position\<close>)
     (generateSwingTrendPrompt params context) \<and>
   sublist ([0x2D, 0x20, 0x4C, 0x65, 0x76, 0x65, 0x6C, 0x20, 0x32, 0x3A,
      0x20, 0x5CF0, 0x503C, 0x8FBE, 0x5230, 0x20] \<comment> \<open>- Level 2: when the peak reaches\<close> @
            numberToString (TrailingLevel.trigger (level2 (trailingStop params))) @
            \<comment> \<open>%, on falling back to\<close>
            [0x25, 0x20, 0x65F6, 0xFF0C, 0x56DE, 0x843D, 0x81F3, 0x20] @
            numberToString (stopAt (level2 (trailingStop params))) @ [0x25, 0x20, 0x5E73, 0x4ED3, 0x0A] \<comment> \<open>% close the position\<close>)
     (generateSwingTrendPrompt params context) \<and>
   sublist ([0x2D, 0x20, 0x4C, 0x65, 0x76, 0x65, 0x6C, 0x20, 0x33, 0x3A,
      0x20, 0x5CF0, 0x503C, 0x8FBE, 0x5230, 0x20] \<comment> \<open>- Level 3: when the peak reaches\<close> @
            numberToString (TrailingLevel.trigger (level3 (trailingStop params))) @
            \<comment> \<open>%, on falling back to\<close>
            [0x25, 0x20, 0x65F6, 0xFF0C, 0x56DE, 0x843D, 0x81F3, 0x20] @
            numberToString (stopAt (level3 (trailingStop params))) @ [0x25, 0x20, 0x5E73, 0x4ED3, 0x0A] \<comment> \<open>% close the position\<close>)
     (generateSwingTrendPrompt params context) \<and>
   sublist [0x2D, 0x20, 0x5E73, 0x4ED3, 0x5B8C, 0x5168, 0x7531, 0x81EA, 0x52A8, 0x76D1,
      0x63A7, 0x6267, 0x884C, 0x0A] \<comment> \<open>- closing is carried out entirely by the automatic monitor\<close> (generateSwingTrendPrompt params context) \<and>
   sublist [0x2D, 0x20, 0x41, 0x49, 0x7981, 0x6B62, 0x4E3B, 0x52A8, 0x8C03, 0x7528,
      0x20, 0x63, 0x6C, 0x6F, 0x73, 0x65, 0x50, 0x6F, 0x73, 0x69,
      0x74, 0x69, 0x6F, 0x6E, 0x0A] \<comment> \<open>- the AI is forbidden to call closePosition on its own\<close> (generateSwingTrendPrompt params context)"
  unfolding generateSwingTrendPrompt_def
  by (intro conjI member_sublist_concat) simp_all

text \<open>
  The swing-trend record derived from a system maximum of 10 has the leverage range 2 to
  5; its text reads ``2-3 times: stop at a loss of -9\%'', ``4-5 times: -7.5\%'',
  ``6 times and above: -5.5\%'', and the trailing stops 15/8, 30/20 and 50/35.
\<close>

lemma swingTrend_prompt_at_10:
  "sublist [0x2D, 0x20, 0x32, 0x2D, 0x33, 0x500D, 0x6760, 0x6746, 0xFF1A, 0x4E8F,
     0x635F, 0x20, 0x2D, 0x39, 0x25, 0x20, 0x65F6, 0x6B62, 0x635F, 0x0A] \<comment> \<open>- 2-3 times leverage: at a loss of -9% stop the loss\<close>
     (generateSwingTrendPrompt (getSwingTrendStrategy 10) ()) \<and>
   sublist [0x2D, 0x20, 0x34, 0x2D, 0x35, 0x500D, 0x6760, 0x6746, 0xFF1A, 0x4E8F,
      0x635F, 0x20, 0x2D, 0x37, 0x2E, 0x35, 0x25, 0x20, 0x65F6, 0x6B62,
      0x635F, 0x0A] \<comment> \<open>- 4-5 times leverage: at a loss of -7.5% stop the loss\<close>
     (generateSwingTrendPrompt (getSwingTrendStrategy 10) ()) \<and>
   sublist [0x2D, 0x20, 0x36, 0x500D, 0x4EE5, 0x4E0A, 0x6760, 0x6746, 0xFF1A, 0x4E8F,
      0x635F, 0x20, 0x2D, 0x35, 0x2E, 0x35, 0x25, 0x20, 0x65F6, 0x6B62,
      0x635F, 0x0A] \<comment> \<open>- 6 times leverage and above: at a loss of -5.5% stop the loss\<close>
     (generateSwingTrendPrompt (getSwingTrendStrategy 10) ()) \<and>
   sublist [0x2D, 0x20, 0x4C, 0x65, 0x76, 0x65, 0x6C, 0x20, 0x31, 0x3A,
      0x20, 0x5CF0, 0x503C, 0x8FBE, 0x5230, 0x20, 0x31, 0x35, 0x25, 0x20,
      0x65F6, 0xFF0C, 0x56DE, 0x843D, 0x81F3, 0x20, 0x38, 0x25, 0x20, 0x5E73,
      0x4ED3, 0x0A] \<comment> \<open>- Level 1: when the peak reaches 15%, on falling back to 8% close the position\<close>
     (generateSwingTrendPrompt (getSwingTrendStrategy 10) ()) \<and>
   sublist [0x2D, 0x20, 0x4C, 0x65, 0x76, 0x65, 0x6C, 0x20, 0x32, 0x3A,
      0x20, 0x5CF0, 0x503C, 0x8FBE, 0x5230, 0x20, 0x33, 0x30, 0x25, 0x20,
      0x65F6, 0xFF0C, 0x56DE, 0x843D, 0x81F3, 0x20, 0x32, 0x30, 0x25, 0x20,
      0x5E73, 0x4ED3, 0x0A] \<comment> \<open>- Level 2: when the peak reaches 30%, on falling back to 20% close the position\<close>
     (generateSwingTrendPrompt (getSwingTrendStrategy 10) ()) \<and>
   sublist [0x2D, 0x20, 0x4C, 0x65, 0x76, 0x65, 0x6C, 0x20, 0x33, 0x3A,
      0x20, 0x5CF0, 0x503C, 0x8FBE, 0x5230, 0x20, 0x35, 0x30, 0x25, 0x20,
      0x65F6, 0xFF0C, 0x56DE, 0x843D, 0x81F3, 0x20, 0x33, 0x35, 0x25, 0x20,
      0x5E73, 0x4ED3, 0x0A] \<comment> \<open>- Level 3: when the peak reaches 50%, on falling back to 35% close the position\<close>
     (generateSwingTrendPrompt (getSwingTrendStrategy 10) ()) \<and>
   sublist [0x2D, 0x20, 0x5E73, 0x4ED3, 0x5B8C, 0x5168, 0x7531, 0x81EA, 0x52A8, 0x76D1,
      0x63A7, 0x6267, 0x884C, 0x0A] \<comment> \<open>- closing is carried out entirely by the automatic monitor\<close>
     (generateSwingTrendPrompt (getSwingTrendStrategy 10) ()) \<and>
   sublist [0x2D, 0x20, 0x41, 0x49, 0x7981, 0x6B62, 0x4E3B, 0x52A8, 0x8C03, 0x7528,
      0x20, 0x63, 0x6C, 0x6F, 0x73, 0x65, 0x50, 0x6F, 0x73, 0x69,
      0x74, 0x69, 0x6F, 0x6E, 0x0A] \<comment> \<open>- the AI is forbidden to call closePosition on its own\<close>
     (generateSwingTrendPrompt (getSwingTrendStrategy 10) ())"
proof -
  have fields: "leverageMin (getSwingTrendStrategy 10) = 2"
    "leverageMax (getSwingTrendStrategy 10) = 5"
    "stopLoss (getSwingTrendStrategy 10) = \<lparr>low = -9, mid = -7.5, high = -5.5\<rparr>"
    "trailingStop (getSwingTrendStrategy 10) = \<lparr>
       level1 = \<lparr>TrailingLevel.trigger = 15, stopAt = 8\<rparr>,
       level2 = \<lparr>TrailingLevel.trigger = 30, stopAt = 20\<rparr>,
       level3 = \<lparr>TrailingLevel.trigger = 50, stopAt = 35\<rparr>\<rparr>"
    by (simp_all add: getSwingTrendStrategy_def)
  have stopLossLines:
    "[0x2D, 0x20] @ numberToString (leverageMin (getSwingTrendStrategy 10)) @ [0x2D] @
       numberToString (bucketBoundary (getSwingTrendStrategy 10) 0.33) @ [0x500D, 0x6760, 0x6746, 0xFF1A, 0x4E8F, 0x635F, 0x20] \<comment> \<open>times leverage: at a loss of\<close> @
       numberToString (low (stopLoss (getSwingTrendStrategy 10))) @ [0x25, 0x20, 0x65F6, 0x6B62, 0x635F, 0x0A] \<comment> \<open>% stop the loss\<close>
     = [0x2D, 0x20, 0x32, 0x2D, 0x33, 0x500D, 0x6760, 0x6746, 0xFF1A, 0x4E8F,
        0x635F, 0x20, 0x2D, 0x39, 0x25, 0x20, 0x65F6, 0x6B62, 0x635F, 0x0A] \<comment> \<open>- 2-3 times leverage: at a loss of -9% stop the loss\<close>"
    "[0x2D, 0x20] @ numberToString (bucketBoundary (getSwingTrendStrategy 10) 0.33 + 1) @ [0x2D] @
       numberToString (bucketBoundary (getSwingTrendStrategy 10) 0.67) @ [0x500D, 0x6760, 0x6746, 0xFF1A, 0x4E8F, 0x635F, 0x20] \<comment> \<open>times leverage: at a loss of\<close> @
       numberToString (mid (stopLoss (getSwingTrendStrategy 10))) @ [0x25, 0x20, 0x65F6, 0x6B62, 0x635F, 0x0A] \<comment> \<open>% stop the loss\<close>
     = [0x2D, 0x20, 0x34, 0x2D, 0x35, 0x500D, 0x6760, 0x6746, 0xFF1A, 0x4E8F,
        0x635F, 0x20, 0x2D, 0x37, 0x2E, 0x35, 0x25, 0x20, 0x65F6, 0x6B62,
        0x635F, 0x0A] \<comment> \<open>- 4-5 times leverage: at a loss of -7.5% stop the loss\<close>"
    "[0x2D, 0x20] @ numberToString (bucketBoundary (getSwingTrendStrategy 10) 0.67 + 1) @
       \<comment> \<open>times leverage and above: at a loss of\<close>
       [0x500D, 0x4EE5, 0x4E0A, 0x6760, 0x6746, 0xFF1A, 0x4E8F, 0x635F, 0x20] @
       numberToString (high (stopLoss (getSwingTrendStrategy 10))) @ [0x25, 0x20, 0x65F6, 0x6B62, 0x635F, 0x0A] \<comment> \<open>% stop the loss\<close>
     = [0x2D, 0x20, 0x36, 0x500D, 0x4EE5, 0x4E0A, 0x6760, 0x6746, 0xFF1A, 0x4E8F,
        0x635F, 0x20, 0x2D, 0x35, 0x2E, 0x35, 0x25, 0x20, 0x65F6, 0x6B62,
        0x635F, 0x0A] \<comment> \<open>- 6 times leverage and above: at a loss of -5.5% stop the loss\<close>"
    by (simp_all add: fields bucketBoundary_def numberToString_eval)
  have trailingLines:
    "[0x2D, 0x20, 0x4C, 0x65, 0x76, 0x65, 0x6C, 0x20, 0x31, 0x3A,
       0x20, 0x5CF0, 0x503C, 0x8FBE, 0x5230, 0x20] \<comment> \<open>- Level 1: when the peak reaches\<close> @
       numberToString (TrailingLevel.trigger (level1 (trailingStop (getSwingTrendStrategy 10)))) @
       \<comment> \<open>%, on falling back to\<close>
       [0x25, 0x20, 0x65F6, 0xFF0C, 0x56DE, 0x843D, 0x81F3, 0x20] @
       numberToString (stopAt (level1 (trailingStop (getSwingTrendStrategy 10)))) @ [0x25, 0x20, 0x5E73, 0x4ED3, 0x0A] \<comment> \<open>% close the position\<close>
     = [0x2D, 0x20, 0x4C, 0x65, 0x76, 0x65, 0x6C, 0x20, 0x31, 0x3A,
        0x20, 0x5CF0, 0x503C, 0x8FBE, 0x5230, 0x20, 0x31, 0x35, 0x25, 0x20,
        0x65F6, 0xFF0C, 0x56DE, 0x843D, 0x81F3, 0x20, 0x38, 0x25, 0x20, 0x5E73,
        0x4ED3, 0x0A] \<comment> \<open>- Level 1: when the peak reaches 15%, on falling back to 8% close the position\<close>"
    "[0x2D, 0x20, 0x4C, 0x65, 0x76, 0x65, 0x6C, 0x20, 0x32, 0x3A,
       0x20, 0x5CF0, 0x503C, 0x8FBE, 0x5230, 0x20] \<comment> \<open>- Level 2: when the peak reaches\<close> @
       numberToString (TrailingLevel.trigger (level2 (trailingStop (getSwingTrendStrategy 10)))) @
       \<comment> \<open>%, on falling back to\<close>
       [0x25, 0x20, 0x65F6, 0xFF0C, 0x56DE, 0x843D, 0x81F3, 0x20] @
       numberToString (stopAt (level2 (trailingStop (getSwingTrendStrategy 10)))) @ [0x25, 0x20, 0x5E73, 0x4ED3, 0x0A] \<comment> \<open>% close the position\<close>
     = [0x2D, 0x20, 0x4C, 0x65, 0x76, 0x65, 0x6C, 0x20, 0x32, 0x3A,
        0x20, 0x5CF0, 0x503C, 0x8FBE, 0x5230, 0x20, 0x33, 0x30, 0x25, 0x20,
        0x65F6, 0xFF0C, 0x56DE, 0x843D, 0x81F3, 0x20, 0x32, 0x30, 0x25, 0x20,
        0x5E73, 0x4ED3, 0x0A] \<comment> \<open>- Level 2: when the peak reaches 30%, on falling back to 20% close the position\<close>"
    "[0x2D, 0x20, 0x4C, 0x65, 0x76, 0x65, 0x6C, 0x20, 0x33, 0x3A,
       0x20, 0x5CF0, 0x503C, 0x8FBE, 0x5230, 0x20] \<comment> \<open>- Level 3: when the peak reaches\<close> @
       numberToString (TrailingLevel.trigger (level3 (trailingStop (getSwingTrendStrategy 10)))) @
       \<comment> \<open>%, on falling back to\<close>
       [0x25, 0x20, 0x65F6, 0xFF0C, 0x56DE, 0x843D, 0x81F3, 0x20] @
       numberToString (stopAt (level3 (trailingStop (getSwingTrendStrategy 10)))) @ [0x25, 0x20, 0x5E73, 0x4ED3, 0x0A] \<comment> \<open>% close the position\<close>
     = [0x2D, 0x20, 0x4C, 0x65, 0x76, 0x65, 0x6C, 0x20, 0x33, 0x3A,
        0x20, 0x5CF0, 0x503C, 0x8FBE, 0x5230, 0x20, 0x35, 0x30, 0x25, 0x20,
        0x65F6, 0xFF0C, 0x56DE, 0x843D, 0x81F3, 0x20, 0x33, 0x35, 0x25, 0x20,
        0x5E73, 0x4ED3, 0x0A] \<comment> \<open>- Level 3: when the peak reaches 50%, on falling back to 35% close the position\<close>"
    by (simp_all add: fields numberToString_eval)
  show ?thesis
    using swingTrend_prompt_states_thresholds [of "getSwingTrendStrategy 10" "()"]
    by (simp only: stopLossLines trailingLines)
qed

text \<open>
  The aggressive text contains neither the digit 6, nor the character U+76D1, the first
  of the two characters of the word for ``monitor'', nor the capital letter P.
\<close>

lemma aggressive_prompt_no_6: "0x36 \<notin> set (generateAggressivePrompt params context)"
  unfolding generateAggressivePrompt_def by simp

lemma aggressive_prompt_no_monitor: "0x76D1 \<notin> set (generateAggressivePrompt params context)"
  unfolding generateAggressivePrompt_def by simp

lemma aggressive_prompt_no_P: "0x50 \<notin> set (generateAggressivePrompt params context)"
  unfolding generateAggressivePrompt_def by simp

text \<open>
  C4. The claim asks of both profiles with code-level protection that the text states
  the thresholds of the record and that the automatic monitor, not the AI, closes
  positions. The swing-trend renderer does so; the aggressive renderer does not. The
  record derived from a system maximum of 25 has the protection switched on, and the
  module says of it that the monitor manages closing and the AI only opens positions,
  but the text rendered from it is a fixed literal: it does not contain the stop-loss
  threshold \<open>-6\<close> of the record, nor the word for ``monitor'' (U+76D1 U+63A7), nor
  \<^verbatim>\<open>closePosition\<close>.
\<close>

theorem aggressive_prompt_lacks_thresholds:
  "enableCodeLevelProtection (getAggressiveStrategy 25) \<and>
   numberToString (low (stopLoss (getAggressiveStrategy 25))) = [0x2D, 0x36] \<and>
   \<not> sublist (numberToString (low (stopLoss (getAggressiveStrategy 25))))
        (generateAggressivePrompt (getAggressiveStrategy 25) ()) \<and>
   \<not> sublist [0x76D1, 0x63A7] \<comment> \<open>monitor\<close> (generateAggressivePrompt (getAggressiveStrategy 25) ()) \<and>
   \<not> sublist [0x63, 0x6C, 0x6F, 0x73, 0x65, 0x50, 0x6F, 0x73, 0x69, 0x74,
      0x69, 0x6F, 0x6E] \<comment> \<open>closePosition\<close> (generateAggressivePrompt (getAggressiveStrategy 25) ())"
proof -
  have threshold: "numberToString (low (stopLoss (getAggressiveStrategy 25))) = [0x2D, 0x36]"
    by (simp add: getAggressiveStrategy_def Let_def numberToString_eval)
  have "\<not> sublist [0x2D, 0x36] (generateAggressivePrompt (getAggressiveStrategy 25) ())"
    using aggressive_prompt_no_6 set_mono_sublist by fastforce
  moreover have "\<not> sublist [0x76D1, 0x63A7] \<comment> \<open>monitor\<close> (generateAggressivePrompt (getAggressiveStrategy 25) ())"
    using aggressive_prompt_no_monitor set_mono_sublist by fastforce
  moreover have "\<not> sublist [0x63, 0x6C, 0x6F, 0x73, 0x65, 0x50, 0x6F, 0x73, 0x69, 0x74,
     0x69, 0x6F, 0x6E] \<comment> \<open>closePosition\<close>
                   (generateAggressivePrompt (getAggressiveStrategy 25) ())"
    using aggressive_prompt_no_P set_mono_sublist by fastforce
  ultimately show ?thesis
    by (simp add: threshold) (simp add: getAggressiveStrategy_def Let_def)
qed

text \<open>
  C10. No renderer reads its context, and the first four read nothing of the record
  either: two calls with any two contexts return the same text, and for the
  ultra-short, conservative, balanced and aggressive renderers so do two calls with any
  two records.
\<close>

theorem renderers_ignore_context:
  "generateUltraShortPrompt params context = generateUltraShortPrompt params' context' \<and>
   generateConservativePrompt params context = generateConservativePrompt params' context' \<and>
   generateBalancedPrompt params context = generateBalancedPrompt params' context' \<and>
   generateAggressivePrompt params context = generateAggressivePrompt params' context' \<and>
   generateSwingTrendPrompt params context = generateSwingTrendPrompt params context'"
  unfolding generateUltraShortPrompt_def generateConservativePrompt_def
    generateBalancedPrompt_def generateAggressivePrompt_def generateSwingTrendPrompt_def
  by (intro conjI refl)

section \<open>Looking a profile up\<close>

text \<open>
  C9. Looking up an identifier outside the fixed set fails with a
  \<^verbatim>\<open>ConfigurationError\<close> that carries the identifier, and returns no record; looking up
  one of the five identifiers returns a record. So the unknown identifier is the only
  error of the lookup.
\<close>

theorem unknown_profile_is_the_only_error:
  "(profileId \<notin> set profileIds \<longrightarrow>
      deriveStrategy profileId n = Inl (ConfigurationError profileId)) \<and>
   (profileId \<in> set profileIds \<longrightarrow> (\<exists>s. deriveStrategy profileId n = Inr s))"
  by (auto simp add: deriveStrategy_def derivationOf_def profileIds_def)

theorem unknown_profile_is_the_only_error_witness:
  "''nonexistent'' \<notin> set profileIds \<and>
   deriveStrategy ''nonexistent'' 25 = Inl (ConfigurationError ''nonexistent'') \<and>
   ''aggressive'' \<in> set profileIds \<and>
   (\<exists>s. deriveStrategy ''aggressive'' 25 = Inr s)"
  using unknown_profile_is_the_only_error [of "''nonexistent''" 25]
    unknown_profile_is_the_only_error [of "''aggressive''" 25]
  by (simp add: profileIds_def)

end
